theory Spec2Isabelle
  imports Complex_Main "HOL-Library.Multiset" "HOL-Library.Char_ord" "HOL-Library.List_Lexorder"
begin

section \<open>Data model\<close>

text \<open>
  A row of the combined table after cleaning (\<^verbatim>\<open>src/scripts/run_analysis.py\<close>).
  \<^verbatim>\<open>bank_name\<close> is \<open>None\<close> where pandas holds a missing value; the
  coordinates are floats without NaN after \<^verbatim>\<open>dropna\<close>, taken here as reals
  (rounding is not modelled).
\<close>

record row =
  bank_name :: "string option"
  lat :: real
  long :: real

text \<open>A raw row as read from the CSV file: the coordinate cells are not yet numeric.\<close>

record 'a raw_row =
  raw_bank_name :: "string option"
  raw_lat :: 'a
  raw_long :: 'a

datatype error = ValueError | KeyError | AttributeError | TypeError | ZeroDivisionError

definition target_bank :: string where
  "target_bank = ''AzerTurk Bank''"

definition coords :: "row \<Rightarrow> real \<times> real" where
  "coords r = (lat r, long r)"

section \<open>Load and clean\<close>

text \<open>
  \<^verbatim>\<open>df['lat'] = pd.to_numeric(df['lat'], errors='coerce')\<close>, the same for
  \<^verbatim>\<open>long\<close>, then \<^verbatim>\<open>df.dropna(subset=['lat', 'long'])\<close>.
  The library's parser is the parameter \<open>to_numeric\<close>: \<open>None\<close> is the NaN that
  \<^verbatim>\<open>errors='coerce'\<close> puts where a cell does not parse.
\<close>

definition coerce :: "('a \<Rightarrow> real option) \<Rightarrow> 'a raw_row \<Rightarrow> string option \<times> real option \<times> real option" where
  "coerce to_numeric r = (raw_bank_name r, to_numeric (raw_lat r), to_numeric (raw_long r))"

definition dropna :: "(string option \<times> real option \<times> real option) list \<Rightarrow> row list" where
  "dropna rs = concat (map (\<lambda>(b, la, lo).
     (case la of None \<Rightarrow> []
      | Some x \<Rightarrow> (case lo of None \<Rightarrow> []
                   | Some y \<Rightarrow> [\<lparr>bank_name = b, lat = x, long = y\<rparr>]))) rs)"

definition load_clean :: "('a \<Rightarrow> real option) \<Rightarrow> 'a raw_row list \<Rightarrow> row list" where
  "load_clean to_numeric raws = dropna (map (coerce to_numeric) raws)"

text \<open>A raw row has valid numeric coordinates when both cells parse.\<close>

definition valid_coords :: "('a \<Rightarrow> real option) \<Rightarrow> 'a raw_row \<Rightarrow> bool" where
  "valid_coords to_numeric r \<longleftrightarrow> to_numeric (raw_lat r) \<noteq> None \<and> to_numeric (raw_long r) \<noteq> None"

definition cleaned_of :: "('a \<Rightarrow> real option) \<Rightarrow> 'a raw_row \<Rightarrow> row" where
  "cleaned_of to_numeric r =
     \<lparr>bank_name = raw_bank_name r, lat = the (to_numeric (raw_lat r)), long = the (to_numeric (raw_long r))\<rparr>"

section \<open>Branch counts and ranking\<close>

definition count_rows :: "row list \<Rightarrow> string \<Rightarrow> nat" where
  "count_rows df b = length (filter (\<lambda>r. bank_name r = Some b) df)"

text \<open>
  \<^verbatim>\<open>df['bank_name'].unique()\<close>: the distinct values in order of first appearance,
  the missing value included when it occurs.
\<close>

definition unique :: "'a list \<Rightarrow> 'a list" where
  "unique xs = rev (remdups (rev xs))"

text \<open>
  \<^verbatim>\<open>df['bank_name'].value_counts()\<close>: one entry per distinct non-missing name with
  its number of rows, by descending count. The order among equal counts is the library's;
  the stable order is taken here.
\<close>

definition value_counts :: "row list \<Rightarrow> (string \<times> nat) list" where
  "value_counts df =
     sort_key (\<lambda>bc. - int (snd bc))
       (map (\<lambda>b. (b, count_rows df b)) (unique (List.map_filter bank_name df)))"

text \<open>
  \<^verbatim>\<open>atb_rank = (df['bank_name'].value_counts() > atb_count).sum() + 1\<close> with
  \<^verbatim>\<open>atb_count = df[df['bank_name'] == 'AzerTurk Bank'].shape[0]\<close>; \<open>bank_rank\<close>
  is that expression with the bank's name as a parameter.
\<close>

definition bank_rank :: "row list \<Rightarrow> string \<Rightarrow> nat" where
  "bank_rank df b =
     (let atb_count = length (filter (\<lambda>r. bank_name r = Some b) df)
      in length (filter (\<lambda>bc. snd bc > atb_count) (value_counts df)) + 1)"

definition atb_rank :: "row list \<Rightarrow> nat" where
  "atb_rank df = bank_rank df target_bank"

definition banks :: "row list \<Rightarrow> string set" where
  "banks df = {b. \<exists>r \<in> set df. bank_name r = Some b}"

section \<open>Region and zone tagging\<close>

definition region :: "row \<Rightarrow> string" where
  "region r = (if (40.3 \<le> lat r \<and> lat r \<le> 40.5) \<and> (49.7 \<le> long r \<and> long r \<le> 50.0)
               then ''Baku'' else ''Regions'')"

definition assign_zone :: "row \<Rightarrow> string" where
  "assign_zone r =
     (let la = lat r; lo = long r in
      if (40.3 \<le> la \<and> la \<le> 40.5) \<and> (49.7 \<le> lo \<and> lo \<le> 50.0) then ''Baku City''
      else if (40.2 \<le> la \<and> la \<le> 40.6) \<and> (49.5 \<le> lo \<and> lo \<le> 50.3) then ''Absheron''
      else if la > 41.0 then ''North''
      else if la > 40.5 \<and> lo < 48.5 then ''Northwest''
      else if (40.0 \<le> la \<and> la \<le> 40.8) \<and> (47.0 \<le> lo \<and> lo < 49.5) then ''Central''
      else if la < 39.0 then ''South''
      else if lo < 46.0 then ''West''
      else ''Other'')"

section \<open>Distances\<close>

text \<open>
  \<^verbatim>\<open>np.sqrt(((all_coords - coord)**2).sum(axis=1))\<close>, one entry of it: the
  Euclidean distance of two (lat, long) pairs in degrees.
\<close>

definition euclid :: "real \<times> real \<Rightarrow> real \<times> real \<Rightarrow> real" where
  "euclid a c = sqrt ((fst a - fst c) ^ 2 + (snd a - snd c) ^ 2)"

section \<open>Competitive intensity\<close>

text \<open>
  The body of the loop of \<^verbatim>\<open>calculate_competitive_intensity\<close> for one coordinate:
  \<^verbatim>\<open>nearby = (distances > 0) & (distances < radius)\<close>, then \<^verbatim>\<open>nearby.sum()\<close>.
\<close>

definition nearby_count :: "row list \<Rightarrow> real \<Rightarrow> real \<times> real \<Rightarrow> nat" where
  "nearby_count df radius coord =
     (let all_coords = map coords df;
          distances = map (\<lambda>a. euclid a coord) all_coords
      in length (filter (\<lambda>d. d > 0 \<and> d < radius) distances))"

text \<open>
  \<^verbatim>\<open>df['bank_name'] == bank_name\<close> selects no row when the name is the missing
  value, which \<^verbatim>\<open>unique()\<close> can hand to the function.
\<close>

definition calculate_competitive_intensity :: "row list \<Rightarrow> string option \<Rightarrow> real \<Rightarrow> nat list" where
  "calculate_competitive_intensity df bk radius =
     (let bank_coords = map coords (filter (\<lambda>r. bk \<noteq> None \<and> bank_name r = bk) df)
      in map (nearby_count df radius) bank_coords)"

definition intensity_data :: "row list \<Rightarrow> (string option \<times> nat list) list" where
  "intensity_data df =
     map (\<lambda>bank. (bank, calculate_competitive_intensity df bank 0.1)) (unique (map bank_name df))"

section \<open>Nearest neighbours\<close>

text \<open>
  \<^verbatim>\<open>sklearn.neighbors.NearestNeighbors(n_neighbors=1)\<close> with its default metric, the
  Euclidean one: \<^verbatim>\<open>fit\<close> and \<^verbatim>\<open>kneighbors\<close> reject an array of no samples
  with \<^verbatim>\<open>ValueError\<close>; \<^verbatim>\<open>kneighbors\<close> returns, for each query point, the
  distance to the nearest fitted point and that point's index (the first such index is
  taken here where several points are equally near). The distance is the exact
  Euclidean distance here; the doubles that the library computes are the subject of
  the section on double precision below.
\<close>

definition fit :: "(real \<times> real) list \<Rightarrow> error + (real \<times> real) list" where
  "fit X = (if X = [] then Inl ValueError else Inr X)"

definition nearest :: "(real \<times> real) list \<Rightarrow> real \<times> real \<Rightarrow> real \<times> nat" where
  "nearest X q =
     (let ds = map (\<lambda>x. euclid x q) X; m = min_list ds
      in (m, length (takeWhile (\<lambda>d. d \<noteq> m) ds)))"

definition kneighbors :: "(real \<times> real) list \<Rightarrow> (real \<times> real) list \<Rightarrow> error + (real \<times> nat) list" where
  "kneighbors X Q = (if Q = [] then Inl ValueError else Inr (map (nearest X) Q))"

section \<open>Gap analysis and nearest competitor\<close>

definition atb_coords :: "row list \<Rightarrow> (real \<times> real) list" where
  "atb_coords df = map coords (filter (\<lambda>r. bank_name r = Some target_bank) df)"

definition comp_coords :: "row list \<Rightarrow> (real \<times> real) list" where
  "comp_coords df = map coords (filter (\<lambda>r. bank_name r \<noteq> Some target_bank) df)"

definition comp_banks :: "row list \<Rightarrow> string option list" where
  "comp_banks df = map bank_name (filter (\<lambda>r. bank_name r \<noteq> Some target_bank) df)"

record gap_row =
  gap_lat :: real
  gap_long :: real
  gap_bank :: "string option"
  distance_to_bob :: real

text \<open>
  \<^verbatim>\<open>nbrs = NearestNeighbors(n_neighbors=1).fit(atb_coords)\<close>,
  \<^verbatim>\<open>distances, indices = nbrs.kneighbors(comp_coords)\<close>, then the frame
  \<^verbatim>\<open>gap_df\<close> of the competitor rows with their distance.
\<close>

definition gap_df :: "row list \<Rightarrow> error + gap_row list" where
  "gap_df df =
     (case fit (atb_coords df) of
        Inl e \<Rightarrow> Inl e
      | Inr nbrs \<Rightarrow>
          (case kneighbors nbrs (comp_coords df) of
             Inl e \<Rightarrow> Inl e
           | Inr res \<Rightarrow>
               Inr (map (\<lambda>(c, b, d). \<lparr>gap_lat = fst c, gap_long = snd c, gap_bank = b, distance_to_bob = fst d\<rparr>)
                        (zip (comp_coords df) (zip (comp_banks df) res)))))"

text \<open>
  \<^verbatim>\<open>gaps = gap_df[gap_df['distance_to_bob'] > 0.3].sort_values('distance_to_bob', ascending=False)\<close>.
  The order among equal distances is the library's; the stable order is taken here.
\<close>

definition gaps :: "row list \<Rightarrow> error + gap_row list" where
  "gaps df =
     (case gap_df df of
        Inl e \<Rightarrow> Inl e
      | Inr g \<Rightarrow> Inr (sort_key (\<lambda>r. - distance_to_bob r) (filter (\<lambda>r. distance_to_bob r > 0.3) g)))"

text \<open>
  \<^verbatim>\<open>nbrs_comp = NearestNeighbors(n_neighbors=1).fit(comp_coords)\<close>,
  \<^verbatim>\<open>dist_to_comp, idx_comp = nbrs_comp.kneighbors(atb_coords)\<close>: for every row of
  the target bank, the distance to the nearest competitor row and that row's bank.
\<close>

definition atb_analysis :: "row list \<Rightarrow> error + (row \<times> real \<times> string option) list" where
  "atb_analysis df =
     (case fit (comp_coords df) of
        Inl e \<Rightarrow> Inl e
      | Inr nbrs_comp \<Rightarrow>
          (case kneighbors nbrs_comp (atb_coords df) of
             Inl e \<Rightarrow> Inl e
           | Inr res \<Rightarrow>
               Inr (map (\<lambda>(r, d). (r, fst d, comp_banks df ! snd d))
                        (zip (filter (\<lambda>r. bank_name r = Some target_bank) df) res))))"

text \<open>The distance of a point to the nearest row of a set of rows, as the claims word it.\<close>

definition nearest_distance :: "row set \<Rightarrow> real \<times> real \<Rightarrow> real" where
  "nearest_distance R p = Min ((\<lambda>r. euclid (coords r) p) ` R)"

definition target_rows :: "row list \<Rightarrow> row list" where
  "target_rows df = filter (\<lambda>r. bank_name r = Some target_bank) df"

definition competitor_rows :: "row list \<Rightarrow> row list" where
  "competitor_rows df = filter (\<lambda>r. bank_name r \<noteq> Some target_bank) df"

text \<open>The row of \<^verbatim>\<open>gap_df\<close> that a competitor row should give.\<close>

definition gap_of :: "row list \<Rightarrow> row \<Rightarrow> gap_row" where
  "gap_of df c = \<lparr>gap_lat = lat c, gap_long = long c, gap_bank = bank_name c,
                  distance_to_bob = nearest_distance (set (target_rows df)) (coords c)\<rparr>"

section \<open>Opportunity scores\<close>

definition baku_lat_min :: real where "baku_lat_min = 40.30"
definition baku_lat_max :: real where "baku_lat_max = 40.65"
definition baku_long_min :: real where "baku_long_min = 49.60"
definition baku_long_max :: real where "baku_long_max = 50.20"

text \<open>
  \<^verbatim>\<open>np.linspace(start, stop, num)\<close>: \<open>num\<close> evenly spaced values from
  \<open>start\<close> to \<open>stop\<close>, both included.
\<close>

definition linspace :: "real \<Rightarrow> real \<Rightarrow> nat \<Rightarrow> real list" where
  "linspace start stop num =
     map (\<lambda>i. start + real i * ((stop - start) / real (num - 1))) [0..<num]"

text \<open>\<^verbatim>\<open>[[lat, long] for lat in lat_grid for long in long_grid]\<close>\<close>

definition grid_of :: "real list \<Rightarrow> real list \<Rightarrow> (real \<times> real) list" where
  "grid_of lat_grid long_grid = concat (map (\<lambda>la. map (\<lambda>lo. (la, lo)) long_grid) lat_grid)"

subsection \<open>Baku-Absheron\<close>

definition df_baku :: "row list \<Rightarrow> row list" where
  "df_baku df =
     filter (\<lambda>r. (lat r \<ge> baku_lat_min \<and> lat r \<le> baku_lat_max) \<and>
                 (long r \<ge> baku_long_min \<and> long r \<le> baku_long_max)) df"

definition atb_baku :: "row list \<Rightarrow> row list" where
  "atb_baku df = filter (\<lambda>r. bank_name r = Some target_bank) (df_baku df)"

definition comp_baku :: "row list \<Rightarrow> row list" where
  "comp_baku df = filter (\<lambda>r. bank_name r \<noteq> Some target_bank) (df_baku df)"

text \<open>
  \<^verbatim>\<open>atb_baku[['lat', 'long']].values if len(atb_baku) > 0 else np.array([[40.4, 49.85]])\<close>
\<close>

definition atb_coords_baku :: "row list \<Rightarrow> (real \<times> real) list" where
  "atb_coords_baku df =
     (if length (atb_baku df) > 0 then map coords (atb_baku df) else [(40.4, 49.85)])"

definition comp_coords_baku :: "row list \<Rightarrow> (real \<times> real) list" where
  "comp_coords_baku df = map coords (comp_baku df)"

definition grid_resolution_baku :: nat where "grid_resolution_baku = 35"

definition grid_points_baku :: "(real \<times> real) list" where
  "grid_points_baku =
     grid_of (linspace baku_lat_min baku_lat_max grid_resolution_baku)
             (linspace baku_long_min baku_long_max grid_resolution_baku)"

definition calculate_opportunity_score_baku :: "row list \<Rightarrow> real \<times> real \<Rightarrow> real" where
  "calculate_opportunity_score_baku df point =
     (let distances_bob = map (\<lambda>a. euclid a point) (atb_coords_baku df);
          dist_score = min_list distances_bob;
          distances_comp = map (\<lambda>c. euclid c point) (comp_coords_baku df);
          nearby_comps = length (filter (\<lambda>d. d < 0.05) distances_comp)
      in dist_score * 15 + real nearby_comps * 0.8)"

definition opportunity_scores_baku :: "row list \<Rightarrow> real list" where
  "opportunity_scores_baku df = map (calculate_opportunity_score_baku df) grid_points_baku"

subsection \<open>Regions\<close>

definition df_regions :: "row list \<Rightarrow> row list" where
  "df_regions df =
     filter (\<lambda>r. \<not> ((lat r \<ge> baku_lat_min \<and> lat r \<le> baku_lat_max) \<and>
                    (long r \<ge> baku_long_min \<and> long r \<le> baku_long_max))) df"

definition atb_regions :: "row list \<Rightarrow> row list" where
  "atb_regions df = filter (\<lambda>r. bank_name r = Some target_bank) (df_regions df)"

definition comp_regions :: "row list \<Rightarrow> row list" where
  "comp_regions df = filter (\<lambda>r. bank_name r \<noteq> Some target_bank) (df_regions df)"

text \<open>
  \<^verbatim>\<open>atb_regions[['lat', 'long']].values if len(atb_regions) > 0 else np.array([[40.0, 48.0]])\<close>
\<close>

definition atb_coords_regions :: "row list \<Rightarrow> (real \<times> real) list" where
  "atb_coords_regions df =
     (if length (atb_regions df) > 0 then map coords (atb_regions df) else [(40.0, 48.0)])"

definition comp_coords_regions :: "row list \<Rightarrow> (real \<times> real) list" where
  "comp_coords_regions df = map coords (comp_regions df)"

definition grid_resolution_regions :: nat where "grid_resolution_regions = 30"

text \<open>
  The grid spans the rows outside Baku-Absheron, widened by 0.1 degrees. With no such
  row the minimum and maximum are NaN in the source and so is every grid point; that
  grid is \<open>None\<close> here.
\<close>

definition grid_points_regions :: "row list \<Rightarrow> (real \<times> real) list option" where
  "grid_points_regions df =
     (if df_regions df = [] then None
      else
        let region_lat_min = Min (set (map lat (df_regions df))) - 0.1;
            region_lat_max = Max (set (map lat (df_regions df))) + 0.1;
            region_long_min = Min (set (map long (df_regions df))) - 0.1;
            region_long_max = Max (set (map long (df_regions df))) + 0.1
        in Some (grid_of (linspace region_lat_min region_lat_max grid_resolution_regions)
                         (linspace region_long_min region_long_max grid_resolution_regions)))"

definition calculate_opportunity_score_regions :: "row list \<Rightarrow> real \<times> real \<Rightarrow> real" where
  "calculate_opportunity_score_regions df point =
     (if (baku_lat_min \<le> fst point \<and> fst point \<le> baku_lat_max) \<and>
         (baku_long_min \<le> snd point \<and> snd point \<le> baku_long_max)
      then 0
      else
        let dist_score =
              (if length (atb_coords_regions df) > 0
               then min_list (map (\<lambda>a. euclid a point) (atb_coords_regions df))
               else 2.0);
            distances_comp = map (\<lambda>c. euclid c point) (comp_coords_regions df);
            nearby_comps = length (filter (\<lambda>d. d < 0.3) distances_comp)
        in dist_score * 10 + real nearby_comps * 0.5)"

definition opportunity_scores_regions :: "row list \<Rightarrow> real list option" where
  "opportunity_scores_regions df =
     map_option (map (calculate_opportunity_score_regions df)) (grid_points_regions df)"

text \<open>The urban bounding box, and the quantities the claims speak of.\<close>

definition in_urban_box :: "real \<times> real \<Rightarrow> bool" where
  "in_urban_box p \<longleftrightarrow> (40.30 \<le> fst p \<and> fst p \<le> 40.65) \<and> (49.60 \<le> snd p \<and> snd p \<le> 50.20)"

definition rows_within :: "real \<Rightarrow> real \<times> real \<Rightarrow> row list \<Rightarrow> nat" where
  "rows_within radius p rs = length (filter (\<lambda>r. euclid (coords r) p < radius) rs)"

definition outside_box :: "row list \<Rightarrow> row list" where
  "outside_box rs = filter (\<lambda>r. \<not> in_urban_box (coords r)) rs"

definition inside_box :: "row list \<Rightarrow> row list" where
  "inside_box rs = filter (\<lambda>r. in_urban_box (coords r)) rs"

text \<open>
  The regional score as claim C7 words it: ten times the distance to the nearest row of
  the target bank plus half the number of competitor rows within 0.3 degrees.
\<close>

definition claimed_regional_score :: "row list \<Rightarrow> real \<times> real \<Rightarrow> real" where
  "claimed_regional_score df p =
     10 * nearest_distance (set (target_rows df)) p + 0.5 * real (rows_within 0.3 p (competitor_rows df))"

text \<open>
  The number of other rows within the radius of row \<open>i\<close>, as claim C4 words it: every
  row but row \<open>i\<close> itself.
\<close>

definition others_within :: "row list \<Rightarrow> real \<Rightarrow> nat \<Rightarrow> nat" where
  "others_within df radius i =
     length (filter (\<lambda>j. j \<noteq> i \<and> euclid (coords (df ! j)) (coords (df ! i)) < radius) [0..<length df])"

definition is_regional_grid_point :: "row list \<Rightarrow> real \<times> real \<Rightarrow> bool" where
  "is_regional_grid_point df p =
     (case grid_points_regions df of None \<Rightarrow> False | Some g \<Rightarrow> p \<in> set g)"

section \<open>Composite multi-metric comparison\<close>

record metric_row =
  Bank :: string
  Branch_Count :: real
  Geographic_Spread :: real
  Baku_Percentage :: real
  Avg_Competitive_Intensity :: real

text \<open>
  \<^verbatim>\<open>top_5_banks = df['bank_name'].value_counts().head(5).index\<close>; when the target
  bank is not among them, the first four and the target bank.
\<close>

definition comparison_banks :: "row list \<Rightarrow> string list" where
  "comparison_banks df =
     (let top_5_banks = map fst (take 5 (value_counts df))
      in if target_bank \<notin> set top_5_banks then take 4 top_5_banks @ [target_bank]
         else top_5_banks)"

text \<open>\<^verbatim>\<open>np.mean\<close> of a list of counts.\<close>

definition mean :: "nat list \<Rightarrow> real" where
  "mean xs = sum_list (map real xs) / real (length xs)"

text \<open>
  The body of the loop over \<^verbatim>\<open>comparison_banks\<close>. A bank without rows has no entry
  in \<^verbatim>\<open>intensity_data\<close>, and \<^verbatim>\<open>intensity_data[bank]\<close> raises
  \<^verbatim>\<open>KeyError\<close>; the statements before it raise nothing, so the lookup decides the
  outcome.
\<close>

definition bank_metrics :: "row list \<Rightarrow> string \<Rightarrow> error + metric_row" where
  "bank_metrics df bank =
     (let bank_data = filter (\<lambda>r. bank_name r = Some bank) df
      in case map_of (intensity_data df) (Some bank) of
           None \<Rightarrow> Inl KeyError
         | Some intensities \<Rightarrow>
             let lat_range = Max (set (map lat bank_data)) - Min (set (map lat bank_data));
                 long_range = Max (set (map long bank_data)) - Min (set (map long bank_data));
                 geo_spread = lat_range + long_range;
                 baku_pct = real (length (filter (\<lambda>r. region r = ''Baku'') bank_data))
                            / real (length bank_data) * 100;
                 avg_intensity = mean intensities
             in Inr \<lparr>Bank = bank, Branch_Count = real (length bank_data),
                      Geographic_Spread = geo_spread, Baku_Percentage = baku_pct,
                      Avg_Competitive_Intensity = avg_intensity\<rparr>)"

fun collect :: "('a \<Rightarrow> error + 'b) \<Rightarrow> 'a list \<Rightarrow> error + 'b list" where
  "collect f [] = Inr []"
| "collect f (x # xs) =
     (case f x of
        Inl e \<Rightarrow> Inl e
      | Inr y \<Rightarrow> (case collect f xs of Inl e \<Rightarrow> Inl e | Inr ys \<Rightarrow> Inr (y # ys)))"

definition metrics :: "row list \<Rightarrow> error + metric_row list" where
  "metrics df = collect (bank_metrics df) (comparison_banks df)"

text \<open>
  One round of the normalising loop, for the column read by \<open>col\<close> and written by
  \<open>col_update\<close>: \<^verbatim>\<open>max_val = metrics_normalized[col].max()\<close>, and when
  \<^verbatim>\<open>max_val > 0\<close> the column becomes \<^verbatim>\<open>metrics_normalized[col] / max_val * 100\<close>.
\<close>

definition normalize_col ::
  "(metric_row \<Rightarrow> real) \<Rightarrow> ((real \<Rightarrow> real) \<Rightarrow> metric_row \<Rightarrow> metric_row) \<Rightarrow> metric_row list \<Rightarrow> metric_row list" where
  "normalize_col col col_update ms =
     (let max_val = Max (set (map col ms))
      in if max_val > 0 then map (col_update (\<lambda>v. v / max_val * 100)) ms else ms)"

definition metrics_normalized :: "metric_row list \<Rightarrow> metric_row list" where
  "metrics_normalized ms =
     normalize_col Avg_Competitive_Intensity Avg_Competitive_Intensity_update
       (normalize_col Baku_Percentage Baku_Percentage_update
         (normalize_col Geographic_Spread Geographic_Spread_update
           (normalize_col Branch_Count Branch_Count_update ms)))"

text \<open>The rows of a bank, and the two percentages a bank's rows can be split into.\<close>

definition rows_of :: "row list \<Rightarrow> string \<Rightarrow> row list" where
  "rows_of df b = filter (\<lambda>r. bank_name r = Some b) df"

definition pct_in_region :: "string \<Rightarrow> row list \<Rightarrow> real" where
  "pct_in_region name rs = real (length (filter (\<lambda>r. region r = name) rs)) / real (length rs) * 100"

text \<open>A column divided by its maximum and multiplied by 100, when that maximum is positive.\<close>

definition scale_by_max :: "real list \<Rightarrow> real list" where
  "scale_by_max xs = (if Max (set xs) > 0 then map (\<lambda>v. v / Max (set xs) * 100) xs else xs)"

text \<open>The row of \<^verbatim>\<open>metrics\<close> that a bank with rows gives.\<close>

definition metric_of :: "row list \<Rightarrow> string \<Rightarrow> metric_row" where
  "metric_of df b =
     \<lparr>Bank = b, Branch_Count = real (length (rows_of df b)),
      Geographic_Spread = (Max (lat ` set (rows_of df b)) - Min (lat ` set (rows_of df b)))
                        + (Max (long ` set (rows_of df b)) - Min (long ` set (rows_of df b))),
      Baku_Percentage = pct_in_region ''Baku'' (rows_of df b),
      Avg_Competitive_Intensity = mean (calculate_competitive_intensity df (Some b) 0.1)\<rparr>"

section \<open>Branch fetchers: writing the CSV file\<close>

text \<open>
  A value of the parsed JSON response (\<^verbatim>\<open>response.json()\<close>): \<^verbatim>\<open>None\<close>, a
  boolean, a number, a string, a list or a dict. A dict is the list of its items in
  insertion order.
\<close>

datatype json =
  JNull
| JBool bool
| JNum real
| JStr string
| JArray "json list"
| JObject "(string \<times> json) list"

text \<open>\<^verbatim>\<open>d.get(k)\<close>: the value at the key, \<^verbatim>\<open>None\<close> when the key is missing.\<close>

definition dict_get :: "(string \<times> json) list \<Rightarrow> string \<Rightarrow> json" where
  "dict_get d k = (case map_of d k of None \<Rightarrow> JNull | Some v \<Rightarrow> v)"

text \<open>\<^verbatim>\<open>d[k] = v\<close>: an existing key keeps its place, a new key goes last.\<close>

fun dict_set :: "string \<Rightarrow> json \<Rightarrow> (string \<times> json) list \<Rightarrow> (string \<times> json) list" where
  "dict_set k v [] = [(k, v)]"
| "dict_set k v (p # d) = (if fst p = k then (k, v) # d else p # dict_set k v d)"

text \<open>
  The text the \<^verbatim>\<open>csv\<close> writer puts in a field: nothing for \<^verbatim>\<open>None\<close>, a string
  as it is, \<^verbatim>\<open>str(v)\<close> for any other value. Python's \<^verbatim>\<open>str\<close> is the parameter
  \<open>str\<close>; quoting and line ends are not modelled, a line is the list of its fields.
\<close>

definition csv_field :: "(json \<Rightarrow> string) \<Rightarrow> json \<Rightarrow> string" where
  "csv_field str v = (case v of JNull \<Rightarrow> [] | JStr s \<Rightarrow> s | _ \<Rightarrow> str v)"

text \<open>
  \<^verbatim>\<open>csv.DictWriter._dict_to_list\<close> with its defaults \<^verbatim>\<open>restval=''\<close> and
  \<^verbatim>\<open>extrasaction='raise'\<close>: a key outside \<^verbatim>\<open>fieldnames\<close> raises
  \<^verbatim>\<open>ValueError\<close>, a field name missing from the row gives \<^verbatim>\<open>restval\<close>.
\<close>

definition dict_to_list :: "(json \<Rightarrow> string) \<Rightarrow> string list \<Rightarrow> (string \<times> json) list \<Rightarrow> error + string list" where
  "dict_to_list str fieldnames rowdict =
     (if \<exists>k \<in> set (map fst rowdict). k \<notin> set fieldnames then Inl ValueError
      else Inr (map (\<lambda>key. case map_of rowdict key of None \<Rightarrow> [] | Some v \<Rightarrow> csv_field str v)
                    fieldnames))"

text \<open>What \<^verbatim>\<open>save_to_csv\<close> prints.\<close>

datatype message = No_branch_data_to_save | Successfully_saved nat string

text \<open>
  The common tail of both \<^verbatim>\<open>save_to_csv\<close>: the field names are the sorted set of
  all keys, the file is the header line followed by one line per row, and the result is
  the file written, if any, with the message printed.
\<close>

definition write_rows ::
  "(json \<Rightarrow> string) \<Rightarrow> (string \<times> json) list list \<Rightarrow> nat \<Rightarrow> string
   \<Rightarrow> error + (string list list option \<times> message)" where
  "write_rows str rows n output_file =
     (let fieldnames = sort (remdups (concat (map (map fst) rows)))
      in case collect (dict_to_list str fieldnames) rows of
           Inl e \<Rightarrow> Inl e
         | Inr lines \<Rightarrow> Inr (Some (fieldnames # lines), Successfully_saved n output_file))"

subsection \<open>ABB\<close>

text \<open>\<^verbatim>\<open>branch.keys()\<close> exists for a dict only.\<close>

definition as_dict :: "json \<Rightarrow> error + (string \<times> json) list" where
  "as_dict v = (case v of JObject d \<Rightarrow> Inr d | _ \<Rightarrow> Inl AttributeError)"

definition save_to_csv_abb ::
  "(json \<Rightarrow> string) \<Rightarrow> json list \<Rightarrow> string \<Rightarrow> error + (string list list option \<times> message)" where
  "save_to_csv_abb str branches output_file =
     (if branches = [] then Inr (None, No_branch_data_to_save)
      else case collect as_dict branches of
             Inl e \<Rightarrow> Inl e
           | Inr rows \<Rightarrow> write_rows str rows (length branches) output_file)"

subsection \<open>Kapital Bank\<close>

text \<open>
  \<^verbatim>\<open>for day in working_days\<close>: a list gives its elements, a string its characters,
  a dict its keys; any other value is not iterable.
\<close>

definition iterate :: "json \<Rightarrow> error + json list" where
  "iterate v =
     (case v of
        JArray xs \<Rightarrow> Inr xs
      | JStr s \<Rightarrow> Inr (map (\<lambda>c. JStr [c]) s)
      | JObject d \<Rightarrow> Inr (map (\<lambda>p. JStr (fst p)) d)
      | _ \<Rightarrow> Inl TypeError)"

text \<open>
  One round of the loop over the working days. The unused
  \<^verbatim>\<open>day_name = day.get("day_of_week_name", "").lower().replace(" ", "_")\<close> raises
  \<^verbatim>\<open>AttributeError\<close> when the name is present and not a string.
\<close>

definition is_str :: "json \<Rightarrow> bool" where
  "is_str v = (case v of JStr s \<Rightarrow> True | _ \<Rightarrow> False)"

definition add_day :: "(json \<Rightarrow> string) \<Rightarrow> json \<Rightarrow> (string \<times> json) list \<Rightarrow> error + (string \<times> json) list" where
  "add_day str day flattened =
     (case day of
        JObject d \<Rightarrow>
          (let day_num = str (dict_get d ''day_of_week'')
           in if \<not> is_str (case map_of d ''day_of_week_name'' of None \<Rightarrow> JStr [] | Some v \<Rightarrow> v)
              then Inl AttributeError
              else
                Inr (dict_set (''day_'' @ day_num @ ''_customer_close'') (dict_get d ''customer_close_time'')
                    (dict_set (''day_'' @ day_num @ ''_customer_open'') (dict_get d ''customer_open_time'')
                    (dict_set (''day_'' @ day_num @ ''_close_time'') (dict_get d ''close_time'')
                    (dict_set (''day_'' @ day_num @ ''_open_time'') (dict_get d ''open_time'')
                    (dict_set (''day_'' @ day_num @ ''_is_open'') (dict_get d ''is_open'')
                    (dict_set (''day_'' @ day_num @ ''_name'') (dict_get d ''day_of_week_name'')
                       flattened)))))))
      | _ \<Rightarrow> Inl AttributeError)"

fun add_days :: "(json \<Rightarrow> string) \<Rightarrow> json list \<Rightarrow> (string \<times> json) list \<Rightarrow> error + (string \<times> json) list" where
  "add_days str [] flattened = Inr flattened"
| "add_days str (day # days) flattened =
     (case add_day str day flattened of
        Inl e \<Rightarrow> Inl e
      | Inr flattened' \<Rightarrow> add_days str days flattened')"

definition flatten_branch_data :: "(json \<Rightarrow> string) \<Rightarrow> json \<Rightarrow> error + (string \<times> json) list" where
  "flatten_branch_data str branch =
     (case branch of
        JObject b \<Rightarrow>
          (let flattened =
                 [(''id'', dict_get b ''id''),
                  (''name'', dict_get b ''name''),
                  (''slug'', dict_get b ''slug''),
                  (''city_id'', dict_get b ''city_id''),
                  (''type'', dict_get b ''type''),
                  (''is_open'', dict_get b ''is_open''),
                  (''is_nfc'', dict_get b ''is_nfc''),
                  (''cash_in'', dict_get b ''cash_in''),
                  (''working_weekends'', dict_get b ''working_weekends''),
                  (''is_digital'', dict_get b ''is_digital''),
                  (''latitude'', dict_get b ''lat''),
                  (''longitude'', dict_get b ''lng''),
                  (''address'', dict_get b ''address''),
                  (''work_hours_week'', dict_get b ''work_hours_week''),
                  (''work_hours_saturday'', dict_get b ''work_hours_saturday''),
                  (''work_hours_sunday'', dict_get b ''work_hours_sunday''),
                  (''notes'', dict_get b ''notes'')]
           in case iterate (case map_of b ''working_days'' of None \<Rightarrow> JArray [] | Some v \<Rightarrow> v) of
                Inl e \<Rightarrow> Inl e
              | Inr working_days \<Rightarrow> add_days str working_days flattened)
      | _ \<Rightarrow> Inl AttributeError)"

definition save_to_csv_kb ::
  "(json \<Rightarrow> string) \<Rightarrow> json list \<Rightarrow> string \<Rightarrow> error + (string list list option \<times> message)" where
  "save_to_csv_kb str branches output_file =
     (if branches = [] then Inr (None, No_branch_data_to_save)
      else case collect (flatten_branch_data str) branches of
             Inl e \<Rightarrow> Inl e
           | Inr flattened_branches \<Rightarrow>
               write_rows str flattened_branches (length branches) output_file)"

text \<open>
  A branch record of the vendor's shape: a dict whose \<^verbatim>\<open>working_days\<close>, when
  present, is a list of dicts, each with a \<^verbatim>\<open>day_of_week_name\<close> that is a string
  or is missing.
\<close>

definition day_record :: "json \<Rightarrow> bool" where
  "day_record day =
     (case day of
        JObject d \<Rightarrow> (case map_of d ''day_of_week_name'' of None \<Rightarrow> True | Some (JStr s) \<Rightarrow> True | _ \<Rightarrow> False)
      | _ \<Rightarrow> False)"

definition branch_record :: "json \<Rightarrow> bool" where
  "branch_record branch =
     (case branch of
        JObject b \<Rightarrow>
          (case map_of b ''working_days'' of
             None \<Rightarrow> True
           | Some (JArray days) \<Rightarrow> list_all day_record days
           | _ \<Rightarrow> False)
      | _ \<Rightarrow> False)"

text \<open>
  The file the claim describes for a non-empty list of rows: the header is the sorted
  list of the distinct keys of all rows, and each row gives one line, in order, with
  the field of each header key and nothing where the row has no such key.
\<close>

definition all_keys :: "(string \<times> json) list list \<Rightarrow> string set" where
  "all_keys rows = (\<Union>row \<in> set rows. fst ` set row)"

definition line_of :: "(json \<Rightarrow> string) \<Rightarrow> string list \<Rightarrow> (string \<times> json) list \<Rightarrow> string list" where
  "line_of str header row =
     map (\<lambda>key. case map_of row key of None \<Rightarrow> [] | Some v \<Rightarrow> csv_field str v) header"

section \<open>The run of the analysis script\<close>

text \<open>
  \<^verbatim>\<open>run_analysis.py\<close> is one sequence of statements without any
  \<^verbatim>\<open>try\<close>: the first exception ends the run. The statements embedded above are
  run in the order of the script. The statements between them draw the charts and call
  the plotting, clustering and density libraries; they are not embedded, and each such
  stretch of lines is a \<open>block\<close> whose outcome is given by a parameter: \<open>None\<close> when
  the stretch returns, \<open>Some e\<close> when it raises \<open>e\<close>.
\<close>

datatype block =
  Lines_57_75
| Lines_89_158
| Lines_161_558
| Lines_578_649
| Lines_661_716
| Lines_740_982
| Lines_1015_1177
| Lines_1220_1331
| Lines_1372_1822

record results =
  res_atb_rank :: nat
  res_gaps :: "gap_row list"
  res_atb_analysis :: "(row \<times> real \<times> string option) list"
  res_intensity_data :: "(string option \<times> nat list) list"
  res_opportunity_scores_baku :: "real list"
  res_opportunity_scores_regions :: "real list option"
  res_metrics :: "metric_row list"
  res_metrics_normalized :: "metric_row list"

definition after :: "error option \<Rightarrow> error + 'a \<Rightarrow> error + 'a" where
  "after outcome rest = (case outcome of Some e \<Rightarrow> Inl e | None \<Rightarrow> rest)"

text \<open>
  Line 83 prints \<^verbatim>\<open>atb_count/total_count*100\<close>, a division of Python integers;
  line 159 reads \<^verbatim>\<open>market_share['AzerTurk Bank']\<close> from the value counts.
\<close>

definition run_analysis :: "(block \<Rightarrow> row list \<Rightarrow> error option) \<Rightarrow> row list \<Rightarrow> error + results" where
  "run_analysis lib df =
     after (lib Lines_57_75 df)
     (let total_count = length df in
      if total_count = 0 then Inl ZeroDivisionError
      else
      after (lib Lines_89_158 df)
      (case map_of (value_counts df) target_bank of
         None \<Rightarrow> Inl KeyError
       | Some atb_value \<Rightarrow>
      after (lib Lines_161_558 df)
      (case gaps df of
         Inl e \<Rightarrow> Inl e
       | Inr g \<Rightarrow>
      after (lib Lines_578_649 df)
      (case atb_analysis df of
         Inl e \<Rightarrow> Inl e
       | Inr a \<Rightarrow>
      after (lib Lines_661_716 df)
      (after (lib Lines_740_982 df)
      (after (lib Lines_1015_1177 df)
      (after (lib Lines_1220_1331 df)
      (case metrics df of
         Inl e \<Rightarrow> Inl e
       | Inr ms \<Rightarrow>
      after (lib Lines_1372_1822 df)
      (Inr \<lparr>res_atb_rank = atb_rank df,
            res_gaps = g,
            res_atb_analysis = a,
            res_intensity_data = intensity_data df,
            res_opportunity_scores_baku = opportunity_scores_baku df,
            res_opportunity_scores_regions = opportunity_scores_regions df,
            res_metrics = ms,
            res_metrics_normalized = metrics_normalized ms\<rparr>)))))))))"

text \<open>The parameter of a run in which no chart, clustering or density call raises.\<close>

definition no_failure :: "block \<Rightarrow> row list \<Rightarrow> error option" where
  "no_failure b df = None"

section \<open>Nearest neighbours in double precision\<close>

text \<open>
  Rounding of a real number to the nearest double: 53 significant bits, ties to the even
  significand. The exponent range of doubles (overflow, subnormal numbers) is not
  modelled; coordinates and their squares are far inside it.
\<close>

definition round_even :: "real \<Rightarrow> int" where
  "round_even y =
     (let n = \<lfloor>y\<rfloor>; r = y - of_int n
      in if r < 1 / 2 then n else if r > 1 / 2 then n + 1 else if even n then n else n + 1)"

definition fl :: "real \<Rightarrow> real" where
  "fl x =
     (if x = 0 then 0
      else let e = \<lfloor>log 2 \<bar>x\<bar>\<rfloor>
           in of_int (round_even (x * 2 powr (52 - of_int e))) * 2 powr (of_int e - 52))"




text \<open>
  The exact distance, with the query point first, as \<^const>\<open>nearest\<close> computes it.
\<close>

definition exact_distance :: "real \<times> real \<Rightarrow> real \<times> real \<Rightarrow> real" where
  "exact_distance q x = euclid x q"

text \<open>
  The two nearest-neighbour searches of the script for a distance \<open>d\<close> of the library,
  applied to the query point and the fitted point in this order:
  \<^verbatim>\<open>distances, indices = nbrs.kneighbors(comp_coords)\<close> with the rows of the target
  bank fitted (line 565), and
  \<^verbatim>\<open>dist_to_comp, idx_comp = nbrs_comp.kneighbors(atb_coords)\<close> with the competitor
  rows fitted (line 655).
\<close>

definition nearest_by :: "(real \<times> real \<Rightarrow> real \<times> real \<Rightarrow> real) \<Rightarrow> (real \<times> real) list \<Rightarrow> real \<times> real \<Rightarrow> real \<times> nat" where
  "nearest_by d X q =
     (let ds = map (\<lambda>x. d q x) X; m = min_list ds
      in (m, length (takeWhile (\<lambda>v. v \<noteq> m) ds)))"

definition kneighbors_by ::
  "(real \<times> real \<Rightarrow> real \<times> real \<Rightarrow> real) \<Rightarrow> (real \<times> real) list \<Rightarrow> (real \<times> real) list
   \<Rightarrow> error + (real \<times> nat) list" where
  "kneighbors_by d X Q = (if Q = [] then Inl ValueError else Inr (map (nearest_by d X) Q))"

definition distances_by :: "(real \<times> real \<Rightarrow> real \<times> real \<Rightarrow> real) \<Rightarrow> row list \<Rightarrow> error + real list" where
  "distances_by d df =
     (case fit (atb_coords df) of
        Inl e \<Rightarrow> Inl e
      | Inr nbrs \<Rightarrow>
          (case kneighbors_by d nbrs (comp_coords df) of
             Inl e \<Rightarrow> Inl e
           | Inr res \<Rightarrow> Inr (map fst res)))"


section \<open>Concrete tables\<close>

text \<open>A parser for two cell texts, and a raw table with one cell that does not parse.\<close>

definition parse_cell :: "string \<Rightarrow> real option" where
  "parse_cell s = (if s = ''40.4'' then Some 40.4 else if s = ''49.8'' then Some 49.8 else None)"

definition raw2 :: "string raw_row list" where
  "raw2 = [\<lparr>raw_bank_name = Some ''A'', raw_lat = ''40.4'', raw_long = ''49.8''\<rparr>,
           \<lparr>raw_bank_name = Some ''B'', raw_lat = ''n/a'', raw_long = ''49.8''\<rparr>]"

text \<open>Two banks: A with two rows, B with one.\<close>

definition df3 :: "row list" where
  "df3 = [\<lparr>bank_name = Some ''A'', lat = 40.4, long = 49.86\<rparr>,
          \<lparr>bank_name = Some ''A'', lat = 40.41, long = 49.86\<rparr>,
          \<lparr>bank_name = Some ''B'', lat = 41.0, long = 47.0\<rparr>]"

text \<open>Two branches of different banks at the same coordinates.\<close>

definition df_colocated :: "row list" where
  "df_colocated = [\<lparr>bank_name = Some ''A'', lat = 40.4, long = 49.8\<rparr>,
                   \<lparr>bank_name = Some ''B'', lat = 40.4, long = 49.8\<rparr>]"

text \<open>One row of the target bank and one competitor row, 0.5 degrees apart.\<close>

definition df_pair :: "row list" where
  "df_pair = [\<lparr>bank_name = Some ''AzerTurk Bank'', lat = 40.0, long = 49.0\<rparr>,
              \<lparr>bank_name = Some ''B'', lat = 40.3, long = 49.4\<rparr>]"

text \<open>
  The target bank with one row inside the urban box and one outside, and two competitor
  rows that stretch the regional grid from (38.9, 46.9) to (41.8, 49.8) in steps of 0.1.
\<close>

definition df_c7 :: "row list" where
  "df_c7 = [\<lparr>bank_name = Some ''AzerTurk Bank'', lat = 40.3, long = 49.7\<rparr>,
            \<lparr>bank_name = Some ''AzerTurk Bank'', lat = 41.0, long = 49.1\<rparr>,
            \<lparr>bank_name = Some ''X'', lat = 39.0, long = 47.0\<rparr>,
            \<lparr>bank_name = Some ''X'', lat = 41.7, long = 49.7\<rparr>]"

text \<open>A table without any row of the target bank.\<close>

definition df_no_target :: "row list" where
  "df_no_target = [\<lparr>bank_name = Some ''B'', lat = 41.0, long = 47.0\<rparr>]"

text \<open>A single branch, of the target bank, in Baku.\<close>

definition df_single :: "row list" where
  "df_single = [\<lparr>bank_name = Some ''AzerTurk Bank'', lat = 40.4, long = 49.8\<rparr>]"

text \<open>
  A rendering of scalars for the examples, two ABB records with different keys, and one
  Kapital Bank record with one working day.
\<close>

definition str0 :: "json \<Rightarrow> string" where
  "str0 v = (case v of
               JNull \<Rightarrow> ''None''
             | JBool b \<Rightarrow> (if b then ''True'' else ''False'')
             | JNum x \<Rightarrow> (if x = 1 then ''1'' else if x = 2 then ''2'' else ''?'')
             | JStr s \<Rightarrow> s
             | _ \<Rightarrow> ''?'')"

definition abb2 :: "(string \<times> json) list list" where
  "abb2 = [[(''name'', JStr ''Merkez''), (''id'', JNum 1)],
           [(''id'', JNum 2), (''lat'', JNull)]]"

definition kb1 :: "json list" where
  "kb1 = [JObject [(''id'', JNum 1),
                   (''working_days'',
                    JArray [JObject [(''day_of_week'', JNum 1), (''day_of_week_name'', JStr ''Monday'')]])]]"

text \<open>
  Two Kapital Bank records outside the vendor's shape: one whose
  \<^verbatim>\<open>working_days\<close> is null, one with a working day whose
  \<^verbatim>\<open>day_of_week_name\<close> is null.
\<close>

definition kb_null_days :: "json list" where
  "kb_null_days = [JObject [(''id'', JNum 1), (''working_days'', JNull)]]"

definition kb_null_name :: "json list" where
  "kb_null_name = [JObject [(''id'', JNum 1),
                            (''working_days'',
                             JArray [JObject [(''day_of_week'', JNum 1), (''day_of_week_name'', JNull)]])]]"

text \<open>
  One row of the target bank at (40.41, 49.87) and one competitor row at (40.7, 46.4),
  each coordinate the double nearest to the decimal number of its cell.
\<close>

definition df_fl :: "row list" where
  "df_fl = [\<lparr>bank_name = Some ''AzerTurk Bank'', lat = fl 40.41, long = fl 49.87\<rparr>,
            \<lparr>bank_name = Some ''B'', lat = fl 40.7, long = fl 46.4\<rparr>]"

section \<open>Load and clean: the count invariant\<close>

lemma dropna_coerce:
  "dropna (map (coerce f) raws) = map (cleaned_of f) (filter (valid_coords f) raws)"
  by (induction raws)
     (auto simp: dropna_def coerce_def valid_coords_def cleaned_of_def split: option.splits)

text \<open>
  Claim C8. Cleaning keeps exactly the raw rows whose \<^verbatim>\<open>lat\<close> and \<^verbatim>\<open>long\<close> both
  coerce to a number, in their order: the cleaned table is the image of the valid raw
  rows, its length is their number, and every cleaned row comes from a valid raw row.
\<close>

theorem load_clean_retains_valid:
  "load_clean f raws = map (cleaned_of f) (filter (valid_coords f) raws)
   \<and> length (load_clean f raws) = length (filter (valid_coords f) raws)
   \<and> (\<forall>c \<in> set (load_clean f raws). \<exists>r \<in> set raws. valid_coords f r \<and> c = cleaned_of f r)"
  unfolding load_clean_def dropna_coerce by auto

lemma valid_raw2:
  "filter (valid_coords parse_cell) raw2
   = [\<lparr>raw_bank_name = Some ''A'', raw_lat = ''40.4'', raw_long = ''49.8''\<rparr>]"
  by (simp add: valid_coords_def parse_cell_def raw2_def)

lemma cleaned_raw2:
  "cleaned_of parse_cell \<lparr>raw_bank_name = Some ''A'', raw_lat = ''40.4'', raw_long = ''49.8''\<rparr>
   = \<lparr>bank_name = Some ''A'', lat = 40.4, long = 49.8\<rparr>"
  by (simp add: cleaned_of_def parse_cell_def)

theorem load_clean_retains_valid_witness:
  "load_clean parse_cell raw2 = [\<lparr>bank_name = Some ''A'', lat = 40.4, long = 49.8\<rparr>]
   \<and> length (load_clean parse_cell raw2) = 1"
  using load_clean_retains_valid[of parse_cell raw2]
  by (simp add: valid_raw2 cleaned_raw2)

section \<open>Ranking\<close>

lemma set_unique: "set (unique xs) = set xs"
  by (simp add: unique_def)

lemma distinct_unique: "distinct (unique xs)"
  by (simp add: unique_def)

lemma set_map_filter_bank_name: "set (List.map_filter bank_name df) = banks df"
  by (force simp: banks_def List.map_filter_def image_iff)

lemma length_filter_value_counts:
  "length (filter (\<lambda>bc. P (snd bc)) (value_counts df))
   = card {b \<in> banks df. P (count_rows df b)}"
proof -
  let ?names = "unique (List.map_filter bank_name df)"
  have "length (filter (\<lambda>bc. P (snd bc)) (value_counts df))
        = length (filter (\<lambda>bc. P (snd bc)) (map (\<lambda>b. (b, count_rows df b)) ?names))"
    unfolding value_counts_def by (simp add: filter_sort)
  also have "\<dots> = length (filter (\<lambda>b. P (count_rows df b)) ?names)"
    by (simp add: filter_map comp_def)
  also have "\<dots> = card {b \<in> banks df. P (count_rows df b)}"
    using distinct_unique[of "List.map_filter bank_name df"]
    by (simp add: distinct_length_filter set_unique set_map_filter_bank_name Int_def conj_commute)
  finally show ?thesis .
qed

text \<open>
  Claim C3. The rank computed for a bank is one more than the number of banks with
  strictly more rows; a bank that no other bank exceeds in rows has rank 1.
\<close>

theorem bank_rank_formula:
  "bank_rank df b = 1 + card {b' \<in> banks df. count_rows df b' > count_rows df b}
   \<and> ((\<forall>b'. count_rows df b' \<le> count_rows df b) \<longrightarrow> bank_rank df b = 1)"
proof -
  have r: "bank_rank df b = 1 + card {b' \<in> banks df. count_rows df b' > count_rows df b}"
    unfolding bank_rank_def Let_def
    using length_filter_value_counts[of "\<lambda>c. c > count_rows df b" df]
    by (simp add: count_rows_def)
  have "bank_rank df b = 1" if "\<forall>b'. count_rows df b' \<le> count_rows df b"
  proof -
    have "{b' \<in> banks df. count_rows df b' > count_rows df b} = {}"
      using that by (auto simp: not_less)
    with r show ?thesis by simp
  qed
  with r show ?thesis by blast
qed

lemma count_rows_df3: "count_rows df3 b = (if b = ''A'' then 2 else if b = ''B'' then 1 else 0)"
  by (auto simp: df3_def count_rows_def)

theorem bank_rank_formula_witness:
  "(\<forall>b'. count_rows df3 b' \<le> count_rows df3 ''A'') \<and> bank_rank df3 ''A'' = 1"
  using bank_rank_formula[of df3 "''A''"] by (simp add: count_rows_df3)


section \<open>Region and zone agree on Baku\<close>

text \<open>
  Claim C10. A row is tagged \<^verbatim>\<open>region = 'Baku'\<close> exactly when it is tagged
  \<^verbatim>\<open>zone = 'Baku City'\<close>: the zone's first rule is the region's bounding box.
\<close>

theorem region_baku_iff_zone_baku_city:
  "(region r = ''Baku'') = (assign_zone r = ''Baku City'')"
  by (simp add: region_def assign_zone_def Let_def)

section \<open>Competitive intensity, gaps and nearest competitors\<close>

lemma nearby_count_filter:
  "nearby_count df radius coord
   = length (filter (\<lambda>r. 0 < euclid (coords r) coord \<and> euclid (coords r) coord < radius) df)"
  by (simp add: nearby_count_def Let_def filter_map comp_def)

text \<open>
  Claim C4. The intensity of a row should count every other row, of any bank, within the
  radius of 0.1 degrees, leaving out only the row itself. On two branches of different
  banks at the same coordinates the code counts 0 for the first row, where one other row
  lies within the radius.
\<close>

theorem intensity_colocated:
  "calculate_competitive_intensity df_colocated (Some ''A'') 0.1 = [0]
   \<and> others_within df_colocated 0.1 0 = 1"
  by (simp add: calculate_competitive_intensity_def nearby_count_def others_within_def
                df_colocated_def coords_def euclid_def upt_rec)

lemma fst_nearest:
  "rs \<noteq> [] \<Longrightarrow> fst (nearest (map coords rs) q) = nearest_distance (set rs) q"
  by (simp add: nearest_def Let_def nearest_distance_def min_list_Min image_image)

lemma gap_zip:
  "map (\<lambda>(c, b, d). \<lparr>gap_lat = fst c, gap_long = snd c, gap_bank = b, distance_to_bob = fst d\<rparr>)
       (zip (map coords rs) (zip (map bank_name rs) (map (nearest X) (map coords rs))))
   = map (\<lambda>r. \<lparr>gap_lat = lat r, gap_long = long r, gap_bank = bank_name r,
                distance_to_bob = fst (nearest X (coords r))\<rparr>) rs"
  by (induction rs) (simp_all add: coords_def)

lemma gap_df_eq:
  assumes "target_rows df \<noteq> []" "competitor_rows df \<noteq> []"
  shows "gap_df df = Inr (map (gap_of df) (competitor_rows df))"
proof -
  have a: "atb_coords df = map coords (target_rows df)"
    by (simp add: atb_coords_def target_rows_def)
  have c: "comp_coords df = map coords (competitor_rows df)"
    by (simp add: comp_coords_def competitor_rows_def)
  have b: "comp_banks df = map bank_name (competitor_rows df)"
    by (simp add: comp_banks_def competitor_rows_def)
  have "gap_df df = Inr (map (\<lambda>r. \<lparr>gap_lat = lat r, gap_long = long r, gap_bank = bank_name r,
                distance_to_bob = fst (nearest (map coords (target_rows df)) (coords r))\<rparr>) (competitor_rows df))"
    using assms unfolding gap_df_def fit_def kneighbors_def a b c
    by (simp add: gap_zip del: map_map)
  also have "\<dots> = Inr (map (gap_of df) (competitor_rows df))"
    using assms(1) by (simp add: gap_of_def fst_nearest)
  finally show ?thesis .
qed

text \<open>
  Claim C5. With at least one row of the target bank and one competitor row, the gap
  analysis returns exactly the competitor rows whose distance to the nearest row of the
  target bank is greater than 0.3, each once per row, in descending order of that distance.
\<close>

theorem gaps_exact_and_descending:
  assumes "target_rows df \<noteq> []" "competitor_rows df \<noteq> []"
  shows "\<exists>gs. gaps df = Inr gs
          \<and> mset gs = mset (filter (\<lambda>g. distance_to_bob g > 0.3) (map (gap_of df) (competitor_rows df)))
          \<and> sorted_wrt (\<lambda>x y. distance_to_bob x \<ge> distance_to_bob y) gs"
proof -
  let ?far = "filter (\<lambda>g. distance_to_bob g > 0.3) (map (gap_of df) (competitor_rows df))"
  let ?gs = "sort_key (\<lambda>r. - distance_to_bob r) ?far"
  have g: "gaps df = Inr ?gs"
    by (simp add: gaps_def gap_df_eq[OF assms])
  have m: "mset ?gs = mset ?far" by simp
  have "sorted (map (\<lambda>r. - distance_to_bob r) ?gs)"
    by (rule sorted_sort_key)
  then have s: "sorted_wrt (\<lambda>x y. distance_to_bob x \<ge> distance_to_bob y) ?gs"
    by (simp add: sorted_map)
  from g m s show ?thesis by blast
qed

lemma target_rows_df_pair: "target_rows df_pair = [\<lparr>bank_name = Some ''AzerTurk Bank'', lat = 40.0, long = 49.0\<rparr>]"
  by (simp add: target_rows_def df_pair_def target_bank_def)

lemma competitor_rows_df_pair: "competitor_rows df_pair = [\<lparr>bank_name = Some ''B'', lat = 40.3, long = 49.4\<rparr>]"
  by (simp add: competitor_rows_def df_pair_def target_bank_def)

lemma euclid_df_pair: "euclid (40.0, 49.0) (40.3, 49.4) = 0.5"
proof -
  have "(40.0 - 40.3 :: real) ^ 2 + (49.0 - 49.4) ^ 2 = (1/2) ^ 2"
    by (simp add: power2_eq_square)
  then show ?thesis
    unfolding euclid_def fst_conv snd_conv by (simp add: real_sqrt_abs)
qed

lemma gaps_df_pair:
  "gaps df_pair = Inr [\<lparr>gap_lat = 40.3, gap_long = 49.4, gap_bank = Some ''B'', distance_to_bob = 0.5\<rparr>]"
  using euclid_df_pair
  by (simp add: gaps_def gap_df_def fit_def kneighbors_def nearest_def atb_coords_def comp_coords_def
        comp_banks_def df_pair_def target_bank_def coords_def euclid_def)

theorem gaps_exact_and_descending_witness:
  "target_rows df_pair \<noteq> [] \<and> competitor_rows df_pair \<noteq> []
   \<and> (\<exists>gs. gaps df_pair = Inr gs
          \<and> mset gs = mset (filter (\<lambda>g. distance_to_bob g > 0.3) (map (gap_of df_pair) (competitor_rows df_pair)))
          \<and> sorted_wrt (\<lambda>x y. distance_to_bob x \<ge> distance_to_bob y) gs)"
  using gaps_exact_and_descending[of df_pair]
  by (simp add: target_rows_df_pair competitor_rows_df_pair)

section \<open>Opportunity scores: the urban box and the placeholders\<close>

lemma box_consts:
  "((baku_lat_min \<le> fst p \<and> fst p \<le> baku_lat_max) \<and> (baku_long_min \<le> snd p \<and> snd p \<le> baku_long_max))
   = in_urban_box p"
  by (simp add: in_urban_box_def baku_lat_min_def baku_lat_max_def baku_long_min_def baku_long_max_def)

lemma df_regions_outside: "df_regions df = outside_box df"
  by (simp add: df_regions_def outside_box_def in_urban_box_def coords_def
      baku_lat_min_def baku_lat_max_def baku_long_min_def baku_long_max_def)

lemma df_baku_inside: "df_baku df = inside_box df"
  by (simp add: df_baku_def inside_box_def in_urban_box_def coords_def
      baku_lat_min_def baku_lat_max_def baku_long_min_def baku_long_max_def)

lemma atb_regions_eq: "atb_regions df = outside_box (target_rows df)"
  by (simp add: atb_regions_def df_regions_outside outside_box_def target_rows_def conj_commute)

lemma comp_regions_eq: "comp_regions df = outside_box (competitor_rows df)"
  by (simp add: comp_regions_def df_regions_outside outside_box_def competitor_rows_def conj_commute)

lemma atb_baku_eq: "atb_baku df = inside_box (target_rows df)"
  by (simp add: atb_baku_def df_baku_inside inside_box_def target_rows_def conj_commute)

lemma comp_baku_eq: "comp_baku df = inside_box (competitor_rows df)"
  by (simp add: comp_baku_def df_baku_inside inside_box_def competitor_rows_def conj_commute)

lemma min_list_nearest:
  "rs \<noteq> [] \<Longrightarrow> min_list (map (\<lambda>a. euclid a p) (map coords rs)) = nearest_distance (set rs) p"
  by (simp add: nearest_distance_def min_list_Min image_image)

lemma count_within:
  "length (filter (\<lambda>d. d < radius) (map (\<lambda>c. euclid c p) (map coords rs))) = rows_within radius p rs"
  by (simp add: rows_within_def filter_map comp_def)

text \<open>
  Claim C7, as the code has it. A point inside the urban box scores exactly 0, whatever
  the table. Outside the box the score is ten times the distance to the nearest row of
  the target bank that lies outside the box (to the placeholder (40.0, 48.0) when the
  target bank has no row outside the box), plus half the number of competitor rows
  outside the box at a distance below 0.3.
\<close>

theorem regional_score:
  "(in_urban_box p \<longrightarrow> calculate_opportunity_score_regions df p = 0)
   \<and> (\<not> in_urban_box p \<longrightarrow>
        calculate_opportunity_score_regions df p
        = 10 * (if outside_box (target_rows df) = [] then euclid (40.0, 48.0) p
                else nearest_distance (set (outside_box (target_rows df))) p)
          + 0.5 * real (rows_within 0.3 p (outside_box (competitor_rows df))))"
proof -
  have c: "comp_coords_regions df = map coords (outside_box (competitor_rows df))"
    by (simp add: comp_coords_regions_def comp_regions_eq)
  have inside: "calculate_opportunity_score_regions df p = 0" if "in_urban_box p"
    using that unfolding calculate_opportunity_score_regions_def box_consts by simp
  have outside: "calculate_opportunity_score_regions df p
        = 10 * (if outside_box (target_rows df) = [] then euclid (40.0, 48.0) p
                else nearest_distance (set (outside_box (target_rows df))) p)
          + 0.5 * real (rows_within 0.3 p (outside_box (competitor_rows df)))"
    if out: "\<not> in_urban_box p"
  proof (cases "outside_box (target_rows df) = []")
    case True
    then have a: "atb_coords_regions df = [(40.0, 48.0)]"
      by (simp add: atb_coords_regions_def atb_regions_eq)
    show ?thesis
      unfolding calculate_opportunity_score_regions_def box_consts a c Let_def count_within
      using out True by simp
  next
    case False
    then have a: "atb_coords_regions df = map coords (outside_box (target_rows df))"
      by (simp add: atb_coords_regions_def atb_regions_eq)
    show ?thesis
      unfolding calculate_opportunity_score_regions_def box_consts a c Let_def
        min_list_nearest[OF False] count_within
      using out False by simp
  qed
  from inside outside show ?thesis by blast
qed

lemma linspace_mem:
  "i < n \<Longrightarrow> start + real i * ((stop - start) / real (n - 1)) \<in> set (linspace start stop n)"
  by (auto simp: linspace_def image_iff intro!: bexI[of _ i])

lemma grid_of_mem: "la \<in> set las \<Longrightarrow> lo \<in> set los \<Longrightarrow> (la, lo) \<in> set (grid_of las los)"
  by (auto simp: grid_of_def)

lemma df_regions_df_c7:
  "df_regions df_c7 = [\<lparr>bank_name = Some ''AzerTurk Bank'', lat = 41.0, long = 49.1\<rparr>,
            \<lparr>bank_name = Some ''X'', lat = 39.0, long = 47.0\<rparr>,
            \<lparr>bank_name = Some ''X'', lat = 41.7, long = 49.7\<rparr>]"
  by (simp add: df_regions_def df_c7_def baku_lat_min_def baku_lat_max_def baku_long_min_def baku_long_max_def)

lemma grid_df_c7:
  "grid_points_regions df_c7 = Some (grid_of (linspace 38.9 41.8 30) (linspace 46.9 49.8 30))"
  by (simp add: grid_points_regions_def df_regions_df_c7 grid_resolution_regions_def Let_def)

lemma grid_point_df_c7: "is_regional_grid_point df_c7 (40.2, 49.7)"
proof -
  have "(38.9::real) + real 13 * ((41.8 - 38.9) / real (30 - 1)) \<in> set (linspace 38.9 41.8 30)"
    by (rule linspace_mem) simp
  then have la: "(40.2::real) \<in> set (linspace 38.9 41.8 30)" by simp
  have "(46.9::real) + real 28 * ((49.8 - 46.9) / real (30 - 1)) \<in> set (linspace 46.9 49.8 30)"
    by (rule linspace_mem) simp
  then have lo: "(49.7::real) \<in> set (linspace 46.9 49.8 30)" by simp
  show ?thesis
    unfolding is_regional_grid_point_def grid_df_c7 using grid_of_mem[OF la lo] by simp
qed

lemma euclid_1: "euclid (41.0, 49.1) (40.2, 49.7) = 1"
proof -
  have "(41.0 - 40.2 :: real) ^ 2 + (49.1 - 49.7) ^ 2 = 1"
    by (simp add: power2_eq_square)
  then show ?thesis unfolding euclid_def fst_conv snd_conv by simp
qed

lemma euclid_01: "euclid (40.3, 49.7) (40.2, 49.7) = 0.1"
proof -
  have "(40.3 - 40.2 :: real) ^ 2 + (49.7 - 49.7) ^ 2 = (1/10) ^ 2"
    by (simp add: power2_eq_square)
  then show ?thesis unfolding euclid_def fst_conv snd_conv by (simp add: real_sqrt_abs)
qed

lemma euclid_far_a: "\<not> euclid (39.0, 47.0) (40.2, 49.7) < 0.3"
proof -
  have "(0.3::real) = sqrt (0.3 ^ 2)" by (simp add: real_sqrt_abs)
  moreover have "\<not> (39.0 - 40.2 :: real) ^ 2 + (47.0 - 49.7) ^ 2 < 0.3 ^ 2"
    by (simp add: power2_eq_square)
  ultimately show ?thesis unfolding euclid_def fst_conv snd_conv
    by (metis real_sqrt_less_iff)
qed

lemma euclid_far_b: "\<not> euclid (41.7, 49.7) (40.2, 49.7) < 0.3"
proof -
  have "(0.3::real) = sqrt (0.3 ^ 2)" by (simp add: real_sqrt_abs)
  moreover have "\<not> (41.7 - 40.2 :: real) ^ 2 + (49.7 - 49.7) ^ 2 < 0.3 ^ 2"
    by (simp add: power2_eq_square)
  ultimately show ?thesis unfolding euclid_def fst_conv snd_conv
    by (metis real_sqrt_less_iff)
qed

lemma score_df_c7: "calculate_opportunity_score_regions df_c7 (40.2, 49.7) = 10"
  using euclid_1 euclid_far_a euclid_far_b
  by (simp add: calculate_opportunity_score_regions_def atb_coords_regions_def atb_regions_def
      comp_coords_regions_def comp_regions_def df_regions_df_c7 target_bank_def coords_def
      baku_lat_min_def baku_lat_max_def baku_long_min_def baku_long_max_def)

lemma claimed_df_c7: "claimed_regional_score df_c7 (40.2, 49.7) = 1"
  using euclid_1 euclid_01 euclid_far_a euclid_far_b
  by (simp add: claimed_regional_score_def nearest_distance_def target_rows_def competitor_rows_def
      rows_within_def df_c7_def target_bank_def coords_def)

text \<open>
  Claim C7 as stated fails: at the grid point (40.2, 49.7), outside the box, the nearest
  row of the target bank is the one inside the box, 0.1 away, so the stated score is 1;
  the code measures to the rows outside the box only and scores 10.
\<close>

theorem regional_score_counterexample:
  "is_regional_grid_point df_c7 (40.2, 49.7) \<and> \<not> in_urban_box (40.2, 49.7)
   \<and> calculate_opportunity_score_regions df_c7 (40.2, 49.7) = 10
   \<and> claimed_regional_score df_c7 (40.2, 49.7) = 1"
  using grid_point_df_c7 score_df_c7 claimed_df_c7 by (simp add: in_urban_box_def)

lemma outside_target_df_c7:
  "outside_box (target_rows df_c7) = [\<lparr>bank_name = Some ''AzerTurk Bank'', lat = 41.0, long = 49.1\<rparr>]"
  by (simp add: outside_box_def target_rows_def df_c7_def target_bank_def in_urban_box_def coords_def)

lemma outside_target_df_single: "outside_box (target_rows df_single) = []"
  by (simp add: outside_box_def target_rows_def df_single_def target_bank_def in_urban_box_def coords_def)

lemma outside_competitor_df_single: "outside_box (competitor_rows df_single) = []"
  by (simp add: outside_box_def competitor_rows_def df_single_def target_bank_def)

lemma euclid_placeholder: "euclid (40.0, 48.0) (40.0, 49.0) = 1"
  by (simp add: euclid_def)

theorem regional_score_witness:
  "in_urban_box (40.4, 49.9) \<and> \<not> in_urban_box (40.2, 49.7) \<and> \<not> in_urban_box (40.0, 49.0)
   \<and> calculate_opportunity_score_regions df_c7 (40.4, 49.9) = 0
   \<and> calculate_opportunity_score_regions df_c7 (40.2, 49.7)
       = 10 * nearest_distance (set (outside_box (target_rows df_c7))) (40.2, 49.7)
         + 0.5 * real (rows_within 0.3 (40.2, 49.7) (outside_box (competitor_rows df_c7)))
   \<and> calculate_opportunity_score_regions df_single (40.0, 49.0) = 10"
  using regional_score[of "(40.4, 49.9)" df_c7] regional_score[of "(40.2, 49.7)" df_c7]
        regional_score[of "(40.0, 49.0)" df_single] euclid_placeholder
  by (simp add: outside_target_df_c7 outside_target_df_single outside_competitor_df_single
      in_urban_box_def rows_within_def)

section \<open>Composite comparison: the Baku percentage and the normalisation\<close>

lemma map_of_tabulate:
  "map_of (map (\<lambda>k. (k, f k)) ks) k = (if k \<in> set ks then Some (f k) else None)"
  by (induction ks) auto

lemma intensity_lookup:
  "map_of (intensity_data df) (Some b)
   = (if rows_of df b \<noteq> [] then Some (calculate_competitive_intensity df (Some b) 0.1) else None)"
proof -
  have "(Some b \<in> set (map bank_name df)) = (rows_of df b \<noteq> [])"
    by (force simp: rows_of_def filter_empty_conv image_iff)
  then show ?thesis
    by (simp add: intensity_data_def map_of_tabulate set_unique del: set_map)
qed

lemma bank_metrics_ok:
  "rows_of df b \<noteq> [] \<Longrightarrow> bank_metrics df b = Inr (metric_of df b)"
  by (simp add: bank_metrics_def intensity_lookup Let_def metric_of_def pct_in_region_def
      rows_of_def[symmetric])

lemma collect_all_ok:
  "(\<And>x. x \<in> set xs \<Longrightarrow> f x = Inr (g x)) \<Longrightarrow> collect f xs = Inr (map g xs)"
  by (induction xs) simp_all

lemma set_value_counts: "fst ` set (value_counts df) = banks df"
  by (simp add: value_counts_def set_unique set_map_filter_bank_name image_image)

lemma top_banks_subset: "set (map fst (take n (value_counts df))) \<subseteq> banks df"
proof -
  have "set (take n (value_counts df)) \<subseteq> set (value_counts df)"
    by (rule set_take_subset)
  then have "fst ` set (take n (value_counts df)) \<subseteq> fst ` set (value_counts df)"
    by (rule image_mono)
  then show ?thesis by (simp add: set_value_counts)
qed

lemma comparison_banks_subset:
  "set (comparison_banks df) \<subseteq> banks df \<union> {target_bank}"
proof -
  let ?top = "map fst (take 5 (value_counts df))"
  have t: "set ?top \<subseteq> banks df" by (rule top_banks_subset)
  have "set (take 4 ?top) \<subseteq> set ?top" by (rule set_take_subset)
  with t have t4: "set (take 4 ?top) \<subseteq> banks df" by (rule subset_trans[rotated])
  show ?thesis
  proof (cases "target_bank \<in> set ?top")
    case True
    then have "comparison_banks df = ?top" by (simp add: comparison_banks_def)
    with t show ?thesis by auto
  next
    case False
    then have "comparison_banks df = take 4 ?top @ [target_bank]"
      by (simp add: comparison_banks_def)
    with t4 show ?thesis by auto
  qed
qed

lemma banks_rows_of: "b \<in> banks df \<Longrightarrow> rows_of df b \<noteq> []"
  by (auto simp: banks_def rows_of_def filter_empty_conv)

lemma metrics_ok:
  assumes "target_rows df \<noteq> []"
  shows "metrics df = Inr (map (metric_of df) (comparison_banks df))"
  unfolding metrics_def
proof (rule collect_all_ok)
  fix b assume "b \<in> set (comparison_banks df)"
  then have "b \<in> banks df \<or> b = target_bank"
    using comparison_banks_subset[of df] by auto
  moreover have "rows_of df target_bank \<noteq> []"
    using assms by (simp add: rows_of_def target_rows_def)
  ultimately have "rows_of df b \<noteq> []"
    using banks_rows_of by auto
  then show "bank_metrics df b = Inr (metric_of df b)"
    by (rule bank_metrics_ok)
qed

lemma normalize_col_same:
  assumes "\<And>f m. col (upd f m) = f (col m)"
  shows "map col (normalize_col col upd ms) = scale_by_max (map col ms)"
  by (simp add: normalize_col_def scale_by_max_def Let_def assms comp_def)

lemma normalize_col_other:
  assumes "\<And>f m. g (upd f m) = g m"
  shows "map g (normalize_col col upd ms) = map g ms"
  by (simp add: normalize_col_def Let_def assms comp_def)

lemma normalized_Branch_Count:
  "map Branch_Count (metrics_normalized ms) = scale_by_max (map Branch_Count ms)"
  unfolding metrics_normalized_def
  by (simp add: normalize_col_other normalize_col_same)

lemma normalized_Geographic_Spread:
  "map Geographic_Spread (metrics_normalized ms) = scale_by_max (map Geographic_Spread ms)"
  unfolding metrics_normalized_def
  by (simp add: normalize_col_other normalize_col_same)

lemma normalized_Baku_Percentage:
  "map Baku_Percentage (metrics_normalized ms) = scale_by_max (map Baku_Percentage ms)"
  unfolding metrics_normalized_def
  by (simp add: normalize_col_other normalize_col_same)

lemma normalized_Avg_Competitive_Intensity:
  "map Avg_Competitive_Intensity (metrics_normalized ms) = scale_by_max (map Avg_Competitive_Intensity ms)"
  unfolding metrics_normalized_def
  by (simp add: normalize_col_other normalize_col_same)

lemma scale_by_max_range:
  assumes "xs \<noteq> []" "\<And>x. x \<in> set xs \<Longrightarrow> 0 \<le> x" "y \<in> set (scale_by_max xs)"
  shows "0 \<le> y \<and> y \<le> 100"
proof (cases "Max (set xs) > 0")
  case True
  then obtain x where x: "x \<in> set xs" "y = x / Max (set xs) * 100"
    using assms(3) by (auto simp: scale_by_max_def)
  define q where "q = x / Max (set xs)"
  have "x \<le> Max (set xs)" using x(1) by simp
  then have "q \<le> 1" using True by (simp add: q_def divide_le_eq)
  moreover have "0 \<le> q" using assms(2)[OF x(1)] True by (simp add: q_def)
  ultimately have "0 \<le> q * 100" "q * 100 \<le> 100" by simp_all
  then show ?thesis unfolding x(2) q_def by blast
next
  case False
  then have y: "y \<in> set xs" using assms(3) by (simp add: scale_by_max_def)
  then have "y \<le> Max (set xs)" by simp
  with False assms(2)[OF y] show ?thesis by simp
qed

lemma spread_nonneg: "finite S \<Longrightarrow> S \<noteq> {} \<Longrightarrow> 0 \<le> Max S - Min (S :: real set)"
  by (simp add: Min_le_iff)

lemma mean_nonneg: "0 \<le> mean xs"
proof -
  have "0 \<le> sum_list (map real xs)" by (rule sum_list_nonneg) auto
  then show ?thesis by (simp add: mean_def)
qed

lemma pct_nonneg: "0 \<le> pct_in_region name rs"
  by (simp add: pct_in_region_def)

lemma metric_of_nonneg:
  assumes "rows_of df b \<noteq> []"
  shows "0 \<le> Branch_Count (metric_of df b)" "0 \<le> Geographic_Spread (metric_of df b)"
        "0 \<le> Baku_Percentage (metric_of df b)" "0 \<le> Avg_Competitive_Intensity (metric_of df b)"
proof -
  have "0 \<le> Max (lat ` set (rows_of df b)) - Min (lat ` set (rows_of df b))"
    using assms by (intro spread_nonneg) auto
  moreover have "0 \<le> Max (long ` set (rows_of df b)) - Min (long ` set (rows_of df b))"
    using assms by (intro spread_nonneg) auto
  ultimately show "0 \<le> Geographic_Spread (metric_of df b)"
    by (simp add: metric_of_def)
qed (simp_all add: metric_of_def mean_nonneg pct_nonneg)

lemma comparison_banks_nonempty: "comparison_banks df \<noteq> []"
  by (auto simp: comparison_banks_def Let_def)

text \<open>
  Claim C2, as the code has it. When the target bank has a row, the comparison has one
  row of metrics per bank of the shortlist; its \<^verbatim>\<open>Baku_Percentage\<close> is, before
  normalisation, the percentage of the bank's rows in the region Baku; each of the four
  columns is divided by its maximum and multiplied by 100 when that maximum is positive,
  is left as it is otherwise, and ends within 0 and 100.
\<close>

theorem composite_metrics:
  assumes "target_rows df \<noteq> []"
  shows "\<exists>ms. metrics df = Inr ms \<and> map Bank ms = comparison_banks df
    \<and> (\<forall>m \<in> set ms. Baku_Percentage m = pct_in_region ''Baku'' (rows_of df (Bank m)))
    \<and> (\<forall>col \<in> {Branch_Count, Geographic_Spread, Baku_Percentage, Avg_Competitive_Intensity}.
          map col (metrics_normalized ms) = scale_by_max (map col ms)
          \<and> (\<forall>v \<in> set (map col (metrics_normalized ms)). 0 \<le> v \<and> v \<le> 100))"
proof -
  let ?ms = "map (metric_of df) (comparison_banks df)"
  have m: "metrics df = Inr ?ms" by (rule metrics_ok[OF assms])
  have b: "map Bank ?ms = comparison_banks df"
    by (simp add: comp_def metric_of_def)
  have p: "\<forall>m \<in> set ?ms. Baku_Percentage m = pct_in_region ''Baku'' (rows_of df (Bank m))"
    by (auto simp: metric_of_def)
  have rows: "rows_of df c \<noteq> []" if "c \<in> set (comparison_banks df)" for c
  proof -
    have "c \<in> banks df \<or> c = target_bank"
      using that comparison_banks_subset[of df] by auto
    moreover have "rows_of df target_bank \<noteq> []"
      using assms by (simp add: rows_of_def target_rows_def)
    ultimately show ?thesis using banks_rows_of by auto
  qed
  have ne: "map col ?ms \<noteq> []" for col :: "metric_row \<Rightarrow> real"
    by (simp add: comparison_banks_nonempty)
  have range: "\<forall>v \<in> set (scale_by_max (map col ?ms)). 0 \<le> v \<and> v \<le> 100"
    if "\<And>c. c \<in> set (comparison_banks df) \<Longrightarrow> 0 \<le> col (metric_of df c)"
    for col :: "metric_row \<Rightarrow> real"
  proof
    fix v assume v: "v \<in> set (scale_by_max (map col ?ms))"
    show "0 \<le> v \<and> v \<le> 100"
    proof (rule scale_by_max_range[OF ne _ v])
      fix x assume "x \<in> set (map col ?ms)"
      then show "0 \<le> x" using that by auto
    qed
  qed
  have c1: "map Branch_Count (metrics_normalized ?ms) = scale_by_max (map Branch_Count ?ms)
      \<and> (\<forall>v \<in> set (map Branch_Count (metrics_normalized ?ms)). 0 \<le> v \<and> v \<le> 100)"
    unfolding normalized_Branch_Count
    using range[of Branch_Count] metric_of_nonneg(1)[OF rows] by blast
  have c2: "map Geographic_Spread (metrics_normalized ?ms) = scale_by_max (map Geographic_Spread ?ms)
      \<and> (\<forall>v \<in> set (map Geographic_Spread (metrics_normalized ?ms)). 0 \<le> v \<and> v \<le> 100)"
    unfolding normalized_Geographic_Spread
    using range[of Geographic_Spread] metric_of_nonneg(2)[OF rows] by blast
  have c3: "map Baku_Percentage (metrics_normalized ?ms) = scale_by_max (map Baku_Percentage ?ms)
      \<and> (\<forall>v \<in> set (map Baku_Percentage (metrics_normalized ?ms)). 0 \<le> v \<and> v \<le> 100)"
    unfolding normalized_Baku_Percentage
    using range[of Baku_Percentage] metric_of_nonneg(3)[OF rows] by blast
  have c4: "map Avg_Competitive_Intensity (metrics_normalized ?ms) = scale_by_max (map Avg_Competitive_Intensity ?ms)
      \<and> (\<forall>v \<in> set (map Avg_Competitive_Intensity (metrics_normalized ?ms)). 0 \<le> v \<and> v \<le> 100)"
    unfolding normalized_Avg_Competitive_Intensity
    using range[of Avg_Competitive_Intensity] metric_of_nonneg(4)[OF rows] by blast
  from c1 c2 c3 c4
  have cols: "\<forall>col \<in> {Branch_Count, Geographic_Spread, Baku_Percentage, Avg_Competitive_Intensity}.
          map col (metrics_normalized ?ms) = scale_by_max (map col ?ms)
          \<and> (\<forall>v \<in> set (map col (metrics_normalized ?ms)). 0 \<le> v \<and> v \<le> 100)"
    by blast
  from m b p cols show ?thesis by blast
qed

lemma target_rows_df_single: "target_rows df_single \<noteq> []"
  by (simp add: target_rows_def df_single_def target_bank_def)

lemma value_counts_df_single: "value_counts df_single = [(''AzerTurk Bank'', 1)]"
  by (simp add: value_counts_def df_single_def unique_def List.map_filter_def count_rows_def)

lemma comparison_banks_df_single: "comparison_banks df_single = [''AzerTurk Bank'']"
  by (simp add: comparison_banks_def value_counts_df_single target_bank_def)

lemma bank_metrics_df_single:
  "bank_metrics df_single ''AzerTurk Bank''
   = Inr \<lparr>Bank = ''AzerTurk Bank'', Branch_Count = 1, Geographic_Spread = 0,
           Baku_Percentage = 100, Avg_Competitive_Intensity = 0\<rparr>"
  by (simp add: bank_metrics_def intensity_data_def unique_def
      calculate_competitive_intensity_def nearby_count_def mean_def region_def euclid_def coords_def
      df_single_def)

lemma metrics_df_single:
  "metrics df_single = Inr [\<lparr>Bank = ''AzerTurk Bank'', Branch_Count = 1, Geographic_Spread = 0,
                             Baku_Percentage = 100, Avg_Competitive_Intensity = 0\<rparr>]"
  by (simp add: metrics_def comparison_banks_df_single bank_metrics_df_single)

theorem composite_metrics_witness:
  "target_rows df_single \<noteq> []
   \<and> (\<exists>ms. metrics df_single = Inr ms \<and> map Bank ms = [''AzerTurk Bank'']
    \<and> (\<forall>m \<in> set ms. Baku_Percentage m = pct_in_region ''Baku'' (rows_of df_single (Bank m)))
    \<and> (\<forall>col \<in> {Branch_Count, Geographic_Spread, Baku_Percentage, Avg_Competitive_Intensity}.
          map col (metrics_normalized ms) = scale_by_max (map col ms)
          \<and> (\<forall>v \<in> set (map col (metrics_normalized ms)). 0 \<le> v \<and> v \<le> 100)))"
  using composite_metrics[OF target_rows_df_single] target_rows_df_single
  unfolding comparison_banks_df_single by blast

text \<open>
  Claim C2 as stated fails: for a bank whose only branch is in Baku the third metric is
  100 before normalisation, where the percentage of its rows outside Baku is 0.
\<close>

theorem baku_percentage_counterexample:
  "comparison_banks df_single = [''AzerTurk Bank'']
   \<and> metrics df_single = Inr [\<lparr>Bank = ''AzerTurk Bank'', Branch_Count = 1, Geographic_Spread = 0,
                             Baku_Percentage = 100, Avg_Competitive_Intensity = 0\<rparr>]
   \<and> pct_in_region ''Regions'' (rows_of df_single ''AzerTurk Bank'') = 0"
proof -
  have "pct_in_region ''Regions'' (rows_of df_single ''AzerTurk Bank'') = 0"
    by (simp add: pct_in_region_def rows_of_def df_single_def region_def)
  with comparison_banks_df_single metrics_df_single show ?thesis by blast
qed

section \<open>Branch fetchers: the CSV contract\<close>

lemma collect_list_all2:
  "(\<And>x. x \<in> set xs \<Longrightarrow> \<exists>y. f x = Inr y)
   \<Longrightarrow> \<exists>ys. collect f xs = Inr ys \<and> list_all2 (\<lambda>x y. f x = Inr y) xs ys"
proof (induction xs)
  case Nil
  then show ?case by simp
next
  case (Cons x xs)
  obtain y where y: "f x = Inr y" using Cons.prems by auto
  obtain ys where ys: "collect f xs = Inr ys" "list_all2 (\<lambda>x y. f x = Inr y) xs ys"
    using Cons by auto
  show ?case using y ys by simp
qed

lemma header_props:
  "sorted (sort (remdups (concat (map (map fst) rows))))
   \<and> distinct (sort (remdups (concat (map (map fst) rows))))
   \<and> set (sort (remdups (concat (map (map fst) rows)))) = all_keys rows"
  by (auto simp: all_keys_def)

lemma dict_to_list_ok:
  "fst ` set row \<subseteq> set header \<Longrightarrow> dict_to_list str header row = Inr (line_of str header row)"
  by (auto simp: dict_to_list_def line_of_def)

lemma write_rows_ok:
  "\<exists>header. write_rows str rows n f
             = Inr (Some (header # map (line_of str header) rows), Successfully_saved n f)
           \<and> sorted header \<and> distinct header \<and> set header = all_keys rows"
proof -
  let ?h = "sort (remdups (concat (map (map fst) rows)))"
  have "dict_to_list str ?h row = Inr (line_of str ?h row)" if "row \<in> set rows" for row
  proof (rule dict_to_list_ok)
    show "fst ` set row \<subseteq> set ?h" using that by auto
  qed
  then have "collect (dict_to_list str ?h) rows = Inr (map (line_of str ?h) rows)"
    by (rule collect_all_ok)
  then have "write_rows str rows n f
             = Inr (Some (?h # map (line_of str ?h) rows), Successfully_saved n f)"
    by (simp add: write_rows_def Let_def)
  with header_props[of rows] show ?thesis by blast
qed

lemma collect_as_dict: "collect as_dict (map JObject ds) = Inr ds"
  by (induction ds) (simp_all add: as_dict_def)

lemma add_day_ok: "day_record day \<Longrightarrow> \<exists>acc'. add_day str day acc = Inr acc'"
  by (auto simp: day_record_def add_day_def is_str_def Let_def split: json.splits option.splits)

lemma add_days_ok: "list_all day_record days \<Longrightarrow> \<exists>acc'. add_days str days acc = Inr acc'"
proof (induction days arbitrary: acc)
  case Nil
  then show ?case by simp
next
  case (Cons day days)
  then obtain acc1 where "add_day str day acc = Inr acc1"
    using add_day_ok[of day str acc] by auto
  with Cons show ?case by simp
qed

lemma flatten_ok: "branch_record b \<Longrightarrow> \<exists>row. flatten_branch_data str b = Inr row"
  by (auto simp: branch_record_def flatten_branch_data_def iterate_def Let_def add_days_ok
      split: json.splits option.splits)

text \<open>
  Claim C9, as the code has it. On an empty list both \<^verbatim>\<open>save_to_csv\<close> write no
  file and report that there is no data. On a non-empty list of dicts (for Kapital Bank:
  of branch records, whose \<^verbatim>\<open>working_days\<close>, when present, is a list of dicts
  with a \<^verbatim>\<open>day_of_week_name\<close> that is a string or is missing) they write one
  header line, the sorted distinct keys of all (flattened) records, then one line per
  record in input order, where a key missing from a record gives an empty field, and
  report the number of branches.
\<close>

theorem save_to_csv_contract:
  "save_to_csv_abb str [] f = Inr (None, No_branch_data_to_save)
   \<and> save_to_csv_kb str [] f = Inr (None, No_branch_data_to_save)
   \<and> (ds \<noteq> [] \<longrightarrow>
        (\<exists>header. save_to_csv_abb str (map JObject ds) f
                    = Inr (Some (header # map (line_of str header) ds), Successfully_saved (length ds) f)
                  \<and> sorted header \<and> distinct header \<and> set header = all_keys ds))
   \<and> (bs \<noteq> [] \<and> list_all branch_record bs \<longrightarrow>
        (\<exists>rows header. list_all2 (\<lambda>b row. flatten_branch_data str b = Inr row) bs rows
                  \<and> save_to_csv_kb str bs f
                    = Inr (Some (header # map (line_of str header) rows), Successfully_saved (length bs) f)
                  \<and> sorted header \<and> distinct header \<and> set header = all_keys rows))"
proof -
  have e1: "save_to_csv_abb str [] f = Inr (None, No_branch_data_to_save)"
    by (simp add: save_to_csv_abb_def)
  have e2: "save_to_csv_kb str [] f = Inr (None, No_branch_data_to_save)"
    by (simp add: save_to_csv_kb_def)
  have abb: "\<exists>header. save_to_csv_abb str (map JObject ds) f
                    = Inr (Some (header # map (line_of str header) ds), Successfully_saved (length ds) f)
                  \<and> sorted header \<and> distinct header \<and> set header = all_keys ds"
    if "ds \<noteq> []"
    using that write_rows_ok[of str ds "length ds" f]
    by (simp add: save_to_csv_abb_def collect_as_dict)
  have kb: "\<exists>rows header. list_all2 (\<lambda>b row. flatten_branch_data str b = Inr row) bs rows
                  \<and> save_to_csv_kb str bs f
                    = Inr (Some (header # map (line_of str header) rows), Successfully_saved (length bs) f)
                  \<and> sorted header \<and> distinct header \<and> set header = all_keys rows"
    if "bs \<noteq> []" "list_all branch_record bs"
  proof -
    have "\<exists>row. flatten_branch_data str b = Inr row" if "b \<in> set bs" for b
      using that \<open>list_all branch_record bs\<close> flatten_ok by (auto simp: list_all_iff)
    then obtain rows where rows: "collect (flatten_branch_data str) bs = Inr rows"
      "list_all2 (\<lambda>b row. flatten_branch_data str b = Inr row) bs rows"
      using collect_list_all2[of bs "flatten_branch_data str"] by blast
    obtain header where "write_rows str rows (length bs) f
             = Inr (Some (header # map (line_of str header) rows), Successfully_saved (length bs) f)"
        "sorted header" "distinct header" "set header = all_keys rows"
      using write_rows_ok[of str rows "length bs" f] by blast
    with rows \<open>bs \<noteq> []\<close> show ?thesis
      by (auto simp: save_to_csv_kb_def)
  qed
  from e1 e2 abb kb show ?thesis by blast
qed

lemma save_abb2:
  "save_to_csv_abb str0 (map JObject abb2) ''data/abb_branches.csv''
   = Inr (Some [[''id'', ''lat'', ''name''], [''1'', '''', ''Merkez''], [''2'', '''', '''']],
          Successfully_saved 2 ''data/abb_branches.csv'')"
  by (simp add: save_to_csv_abb_def as_dict_def write_rows_def dict_to_list_def csv_field_def
      str0_def abb2_def)

lemma branch_record_kb1: "list_all branch_record kb1"
  by (simp add: branch_record_def day_record_def kb1_def)

lemma flatten_kb1:
  "flatten_branch_data str0 (hd kb1)
   = Inr [(''id'', JNum 1), (''name'', JNull), (''slug'', JNull), (''city_id'', JNull),
          (''type'', JNull), (''is_open'', JNull), (''is_nfc'', JNull), (''cash_in'', JNull),
          (''working_weekends'', JNull), (''is_digital'', JNull), (''latitude'', JNull),
          (''longitude'', JNull), (''address'', JNull), (''work_hours_week'', JNull),
          (''work_hours_saturday'', JNull), (''work_hours_sunday'', JNull), (''notes'', JNull),
          (''day_1_name'', JStr ''Monday''), (''day_1_is_open'', JNull),
          (''day_1_open_time'', JNull), (''day_1_close_time'', JNull),
          (''day_1_customer_open'', JNull), (''day_1_customer_close'', JNull)]"
  by (simp add: flatten_branch_data_def iterate_def add_day_def is_str_def dict_get_def str0_def kb1_def)

theorem save_to_csv_contract_witness:
  "abb2 \<noteq> [] \<and> kb1 \<noteq> [] \<and> list_all branch_record kb1
   \<and> (\<exists>header. save_to_csv_abb str0 (map JObject abb2) ''data/abb_branches.csv''
                    = Inr (Some (header # map (line_of str0 header) abb2),
                           Successfully_saved (length abb2) ''data/abb_branches.csv'')
                  \<and> sorted header \<and> distinct header \<and> set header = all_keys abb2)
   \<and> (\<exists>rows header. list_all2 (\<lambda>b row. flatten_branch_data str0 b = Inr row) kb1 rows
                  \<and> save_to_csv_kb str0 kb1 ''data/kb_branches.csv''
                    = Inr (Some (header # map (line_of str0 header) rows),
                           Successfully_saved (length kb1) ''data/kb_branches.csv'')
                  \<and> sorted header \<and> distinct header \<and> set header = all_keys rows)"
proof -
  have a: "abb2 \<noteq> []" by (simp add: abb2_def)
  have k: "kb1 \<noteq> []" by (simp add: kb1_def)
  show ?thesis
    using save_to_csv_contract[of str0 "''data/abb_branches.csv''" abb2 kb1]
          save_to_csv_contract[of str0 "''data/kb_branches.csv''" abb2 kb1]
          a k branch_record_kb1
    by blast
qed

text \<open>
  Claim C9 as stated fails: a non-empty Kapital Bank list with a record whose
  \<^verbatim>\<open>working_days\<close> is null, or with a working day whose
  \<^verbatim>\<open>day_of_week_name\<close> is null, makes \<^verbatim>\<open>flatten_branch_data\<close> raise, and
  no header and no row are written.
\<close>

theorem save_to_csv_nothing_written_counterexample:
  "kb_null_days \<noteq> []
   \<and> save_to_csv_kb str0 kb_null_days ''data/kb_branches.csv'' = Inl TypeError
   \<and> kb_null_name \<noteq> []
   \<and> save_to_csv_kb str0 kb_null_name ''data/kb_branches.csv'' = Inl AttributeError"
  by (simp add: save_to_csv_kb_def flatten_branch_data_def iterate_def add_day_def is_str_def
      kb_null_days_def kb_null_name_def)

section \<open>The run without rows of the target bank\<close>

lemma target_rows_df_no_target: "target_rows df_no_target = []"
  by (simp add: target_rows_def df_no_target_def target_bank_def)

lemma map_of_value_counts_None:
  assumes "target_rows df = []"
  shows "map_of (value_counts df) target_bank = None"
proof -
  have "target_bank \<notin> banks df"
    using assms by (auto simp: banks_def target_rows_def filter_empty_conv)
  then have "target_bank \<notin> fst ` set (value_counts df)"
    by (simp add: set_value_counts)
  then show ?thesis by (simp add: map_of_eq_None_iff)
qed

text \<open>
  Claim C1, as the code has it. On a table without rows of the target bank the run ends
  with an error before the gap analysis and the opportunity scores are reached, so that
  they give no result and use no placeholder coordinate: when the table is not empty
  and the charts before it are drawn, the error is the \<^verbatim>\<open>KeyError\<close> of
  \<^verbatim>\<open>market_share['AzerTurk Bank']\<close> at line 159.
\<close>

theorem run_stops_without_target_rows:
  assumes "target_rows df = []"
  shows "(\<exists>e. run_analysis lib df = Inl e)
       \<and> (lib Lines_57_75 df = None \<and> df \<noteq> [] \<and> lib Lines_89_158 df = None
            \<longrightarrow> run_analysis lib df = Inl KeyError)"
proof -
  have k: "map_of (value_counts df) target_bank = None"
    by (rule map_of_value_counts_None[OF assms])
  have "\<exists>e. run_analysis lib df = Inl e"
    by (cases "lib Lines_57_75 df"; cases "lib Lines_89_158 df")
       (simp_all add: run_analysis_def after_def k Let_def)
  moreover have "run_analysis lib df = Inl KeyError"
    if "lib Lines_57_75 df = None" "df \<noteq> []" "lib Lines_89_158 df = None"
    using that by (simp add: run_analysis_def after_def k Let_def)
  ultimately show ?thesis by blast
qed

theorem run_stops_without_target_rows_witness:
  "target_rows df_no_target = [] \<and> no_failure Lines_57_75 df_no_target = None \<and> df_no_target \<noteq> []
   \<and> no_failure Lines_89_158 df_no_target = None
   \<and> run_analysis no_failure df_no_target = Inl KeyError"
proof -
  have ne: "df_no_target \<noteq> []" by (simp add: df_no_target_def)
  show ?thesis
    using run_stops_without_target_rows[OF target_rows_df_no_target, of no_failure] ne
    by (simp add: target_rows_df_no_target no_failure_def)
qed

text \<open>
  Claim C1 as stated fails: on a table with one competitor row and no row of the target
  bank the run ends with \<^verbatim>\<open>KeyError\<close>, which is not the
  \<^verbatim>\<open>InsufficientDataError\<close> of the claim; no statement of the script raises an
  error of that name.
\<close>

theorem no_insufficient_data_error_counterexample:
  "count_rows df_no_target target_bank = 0
   \<and> run_analysis no_failure df_no_target = Inl KeyError"
proof -
  have v: "value_counts df_no_target = [(''B'', 1)]"
    by (simp add: value_counts_def df_no_target_def unique_def List.map_filter_def count_rows_def)
  have "run_analysis no_failure df_no_target = Inl KeyError"
    unfolding run_analysis_def after_def no_failure_def v
    by (simp add: df_no_target_def target_bank_def)
  moreover have "count_rows df_no_target target_bank = 0"
    by (simp add: count_rows_def df_no_target_def target_bank_def)
  ultimately show ?thesis by blast
qed

section \<open>One target row and one competitor row: the two distances\<close>




































lemma nearest_exact: "nearest X q = nearest_by exact_distance X q"
  by (simp add: nearest_def nearest_by_def exact_distance_def)

lemma kneighbors_exact: "kneighbors X Q = kneighbors_by exact_distance X Q"
  by (simp add: kneighbors_def kneighbors_by_def nearest_exact)

lemma distances_exact:
  "distances_by exact_distance df = (case gap_df df of Inl e \<Rightarrow> Inl e | Inr g \<Rightarrow> Inr (map distance_to_bob g))"
proof (cases "atb_coords df = [] \<or> comp_coords df = []")
  case True
  then show ?thesis
    by (auto simp: distances_by_def gap_df_def fit_def kneighbors_exact[symmetric] kneighbors_def
        split: sum.splits)
next
  case False
  have l: "length (comp_banks df) = length (comp_coords df)"
    by (simp add: comp_banks_def comp_coords_def)
  have "map distance_to_bob
          (map (\<lambda>(c, b, d). \<lparr>gap_lat = fst c, gap_long = snd c, gap_bank = b, distance_to_bob = fst d\<rparr>)
               (zip cs (zip bs res))) = map fst res"
    if "length bs = length cs" "length res = length cs" for cs :: "(real \<times> real) list" and bs :: "string option list" and res :: "(real \<times> nat) list"
    using that
  proof (induction cs arbitrary: bs res)
    case Nil
    then show ?case by simp
  next
    case (Cons c cs)
    then obtain b bs' r res' where "bs = b # bs'" "res = r # res'"
      by (metis length_Suc_conv)
    with Cons show ?case by simp
  qed
  from this[OF l, of "map (nearest (atb_coords df)) (comp_coords df)"] False
  show ?thesis
    by (simp add: distances_by_def gap_df_def fit_def kneighbors_exact[symmetric] kneighbors_def)
qed





lemma target_rows_df_fl: "target_rows df_fl = [\<lparr>bank_name = Some ''AzerTurk Bank'', lat = fl 40.41, long = fl 49.87\<rparr>]"
  by (simp add: target_rows_def df_fl_def target_bank_def)

lemma competitor_rows_df_fl: "competitor_rows df_fl = [\<lparr>bank_name = Some ''B'', lat = fl 40.7, long = fl 46.4\<rparr>]"
  by (simp add: competitor_rows_def df_fl_def target_bank_def)


end
